theory Spec2Isabelle
  imports Complex_Main "HOL-Library.List_Lexorder"
begin

section \<open>Python strings, whitespace and digits\<close>

text \<open>
  A Python \<open>str\<close> is a sequence of Unicode code points; it is modelled as a list of
  natural numbers, one per code point, so that \<open>length\<close>, \<open>strip\<close> and the regular
  expressions count what Python counts. \<open>ustr\<close> turns an ASCII literal into such a list;
  letters outside ASCII are written by their code point (\<open>304\<close> is the dotted capital I
  of Turkish, \<open>286\<close>/\<open>287\<close> the G with breve, \<open>350\<close>/\<open>351\<close> the S with cedilla,
  \<open>305\<close> the dotless i, \<open>214\<close> and \<open>220\<close> O and U with diaeresis).
\<close>

type_synonym pystr = "nat list"

definition ustr :: "string \<Rightarrow> pystr" where
  "ustr s = map of_char s"

text \<open>
  \<open>str.isspace\<close> of one code point; the same set is what \<open>str.strip()\<close> removes and what
  \<open>\s\<close> matches in a \<open>str\<close> pattern.
\<close>

definition py_isspace :: "nat \<Rightarrow> bool" where
  "py_isspace c = (c \<in> set [9, 10, 11, 12, 13, 28, 29, 30, 31, 32, 133, 160, 5760,
       8192, 8193, 8194, 8195, 8196, 8197, 8198, 8199, 8200, 8201, 8202,
       8232, 8233, 8239, 8287, 12288])"

text \<open>
  The decimal digits of Unicode (category Nd, Unicode 14) come in runs of ten, each run
  holding the digits 0 to 9 in order; the list gives the first code point of every run.
  \<open>\d\<close> in a \<open>str\<close> pattern matches exactly these, and \<open>float\<close> reads each of them as
  its digit value.
\<close>

definition decimal_starts :: "nat list" where
  "decimal_starts = [48, 1632, 1776, 1984, 2406, 2534, 2662, 2790, 2918, 3046, 3174, 3302,
     3430, 3558, 3664, 3792, 3872, 4160, 4240, 6112, 6160, 6470, 6608, 6784, 6800, 6992,
     7088, 7232, 7248, 42528, 43216, 43264, 43472, 43504, 43600, 44016, 65296, 66720,
     68912, 69734, 69872, 69942, 70096, 70384, 70736, 70864, 71248, 71360, 71472, 71904,
     72016, 72784, 73040, 73120, 92768, 92864, 93008, 120782, 120792, 120802, 120812,
     120822, 123200, 123632, 125264, 130032]"

definition in_run :: "nat \<Rightarrow> nat \<Rightarrow> bool" where
  "in_run c s = (s \<le> c \<and> c < s + 10)"

definition py_isdecimal :: "nat \<Rightarrow> bool" where
  "py_isdecimal c = list_ex (in_run c) decimal_starts"

definition digit_val :: "nat \<Rightarrow> nat" where
  "digit_val c = (case find (in_run c) decimal_starts of Some s \<Rightarrow> c - s | None \<Rightarrow> 0)"

definition ascii_digit :: "nat \<Rightarrow> bool" where
  \<comment> \<open>the class \<open>[0-9]\<close>\<close>
  "ascii_digit c = (48 \<le> c \<and> c \<le> 57)"

definition ascii_upper :: "nat \<Rightarrow> bool" where
  \<comment> \<open>the class \<open>[A-Z]\<close>\<close>
  "ascii_upper c = (65 \<le> c \<and> c \<le> 90)"

definition strip :: "pystr \<Rightarrow> pystr" where
  \<comment> \<open>\<open>s.strip()\<close>\<close>
  "strip s = rev (dropWhile py_isspace (rev (dropWhile py_isspace s)))"

definition replace_chr :: "nat \<Rightarrow> nat \<Rightarrow> pystr \<Rightarrow> pystr" where
  \<comment> \<open>\<open>s.replace(a, b)\<close> for one-character \<open>a\<close> and \<open>b\<close>\<close>
  "replace_chr a b s = map (\<lambda>c. if c = a then b else c) s"

definition remove_chr :: "nat \<Rightarrow> pystr \<Rightarrow> pystr" where
  \<comment> \<open>\<open>s.replace(a, '')\<close> for a one-character \<open>a\<close>\<close>
  "remove_chr a s = filter (\<lambda>c. c \<noteq> a) s"

definition startswith :: "pystr \<Rightarrow> pystr \<Rightarrow> bool" where
  \<comment> \<open>\<open>s.startswith(p)\<close>\<close>
  "startswith s p = (take (length p) s = p)"

fun contains :: "pystr \<Rightarrow> pystr \<Rightarrow> bool" where
  \<comment> \<open>\<open>p in s\<close>\<close>
  "contains [] p = (p = [])"
| "contains (c # cs) p = (startswith (c # cs) p \<or> contains cs p)"

text \<open>
  \<open>re.findall(r"[...]+", s)\<close> for a character class: the maximal runs of characters of
  the class, from left to right.
\<close>

function findall_class :: "(nat \<Rightarrow> bool) \<Rightarrow> pystr \<Rightarrow> pystr list" where
  "findall_class p [] = []"
| "findall_class p (c # cs) =
     (if p c then (c # takeWhile p cs) # findall_class p (dropWhile p cs)
      else findall_class p cs)"
  by pat_completeness auto
termination
  by (relation "measure (\<lambda>(p, s). length s)") (auto simp: length_dropWhile_le less_Suc_eq_le)

section \<open>Errors and floats\<close>

text \<open>
  The exceptions the modelled code can raise. A function that can raise returns
  \<open>error + 'a\<close>, with \<open>Inl\<close> for the exception.
\<close>

datatype error = ValueError | IndexError | TypeError | OSError

text \<open>
  A Python float is modelled by the rational number that its decimal literal denotes;
  rounding to binary64 (and with it overflow to infinity and the sign of zero) is not
  part of the model. \<open>py_float\<close> is \<open>float(s)\<close> for the literals that the call sites
  below can produce: surrounding whitespace, an optional sign, decimal digits and at most
  one point, with a digit on at least one side of it. Anything else over these characters
  raises \<open>ValueError\<close>, as in Python. (Exponents, underscores, \<open>inf\<close> and \<open>nan\<close>, which
  Python also reads, cannot reach \<open>float\<close> from the patterns used here.)
\<close>

definition digits_val :: "pystr \<Rightarrow> nat" where
  "digits_val ds = foldl (\<lambda>a c. 10 * a + digit_val c) 0 ds"

definition unsigned_float :: "pystr \<Rightarrow> error + rat" where
  "unsigned_float u =
     (let ip = takeWhile py_isdecimal u; r = dropWhile py_isdecimal u in
      case r of
        [] \<Rightarrow> if ip = [] then Inl ValueError else Inr (of_nat (digits_val ip))
      | c # fr \<Rightarrow>
          if c = 46 \<and> list_all py_isdecimal fr \<and> (ip \<noteq> [] \<or> fr \<noteq> [])
          then Inr (of_nat (digits_val ip) + of_nat (digits_val fr) / 10 ^ length fr)
          else Inl ValueError)"

definition py_float :: "pystr \<Rightarrow> error + rat" where
  "py_float s =
     (case strip s of
        [] \<Rightarrow> Inl ValueError
      | c # r \<Rightarrow>
          if c = 45 then map_sum id uminus (unsigned_float r)
          else if c = 43 then unsigned_float r
          else unsigned_float (c # r))"

section \<open>new\_pdf\_reader\_2020.py\<close>

text \<open>
  \<open>numbers[0]\<close> of \<open>numbers = re.findall(r"-?\d+\.?\d*", text)\<close>, \<open>None\<close> when the list is
  empty. The leftmost match starts at the first digit, or at a minus sign directly before
  a digit; it takes the digits, a point if one follows, and the digits after it.
\<close>

definition number_at :: "pystr \<Rightarrow> pystr" where
  \<comment> \<open>the match of \<open>\d+\.?\d*\<close> at the head of a string that starts with a digit\<close>
  "number_at s =
     (let ip = takeWhile py_isdecimal s in
      case dropWhile py_isdecimal s of
        [] \<Rightarrow> ip
      | d # fr \<Rightarrow> if d = 46 then ip @ [46] @ takeWhile py_isdecimal fr else ip)"

fun first_number :: "pystr \<Rightarrow> pystr option" where
  "first_number [] = None"
| "first_number (c # cs) =
     (if py_isdecimal c then Some (number_at (c # cs))
      else if c = 45 \<and> (case cs of [] \<Rightarrow> False | d # _ \<Rightarrow> py_isdecimal d)
      then Some (c # number_at cs)
      else first_number cs)"

definition KURU :: pystr where
  "KURU = ustr ''KURU''"

definition DASHES :: pystr where
  "DASHES = ustr ''-----''"

text \<open>
  \<open>extract_number(text, allow_negative=False) -> Optional[float]\<close>. The \<open>try\<close> around
  \<open>float(numbers[0])\<close> turns a \<open>ValueError\<close> into \<open>0.0\<close>.
\<close>

definition extract_number :: "pystr \<Rightarrow> bool \<Rightarrow> error + rat option" where
  "extract_number text allow_negative =
     (if text = [] \<or> strip text \<in> set [KURU, DASHES, []] then Inr (Some 0)
      else
        let text' = replace_chr 44 46 text in
        case first_number text' of
          Some n \<Rightarrow>
            (case py_float n of
               Inr v \<Rightarrow> if \<not> allow_negative \<and> v < 0 then Inr (Some 0) else Inr (Some v)
             | Inl e \<Rightarrow> if e \<in> {ValueError, IndexError} then Inr (Some 0) else Inl e)
        | None \<Rightarrow> Inr (Some 0))"

section \<open>The numeric normalizers\<close>

text \<open>\<open>catchment_data_km2.py\<close>: \<open>clean_num(x) = float(x.strip().replace(",", "."))\<close>.\<close>

definition clean_num :: "pystr \<Rightarrow> error + rat" where
  "clean_num x = py_float (replace_chr 44 46 (strip x))"

text \<open>
  \<open>dsi_final_structured_extractor.py\<close>: \<open>_normalize_number(text) -> Optional[float]\<close>.
  The \<open>ValueError\<close> of \<open>float(numbers[0])\<close> is caught and gives \<open>None\<close>; \<open>float\<close> raises
  nothing else on a string, so the function never raises.
\<close>

definition digit_or_dot :: "nat \<Rightarrow> bool" where
  \<comment> \<open>the class \<open>[\d.]\<close>\<close>
  "digit_or_dot c = (py_isdecimal c \<or> c = 46)"

definition normalize_number :: "pystr \<Rightarrow> rat option" where
  "normalize_number text =
     (if text = [] \<or> strip text = [] then None
      else
        let text' = remove_chr 32 (replace_chr 44 46 (strip text)) in
        case findall_class digit_or_dot text' of
          [] \<Rightarrow> None
        | n # _ \<Rightarrow> (case py_float n of Inr v \<Rightarrow> Some v | Inl e \<Rightarrow> None))"

text \<open>
  \<open>table_arranger.py\<close>: \<open>clean_num(x)\<close>, which accepts any object and answers \<open>None\<close>
  for everything that is not a string; its bare \<open>except\<close> catches every exception of
  \<open>float\<close>.

  \<open>upper_is c k\<close> is \<open>c.upper() == k\<close> for a letter \<open>k\<close> of the words compared below
  (\<open>KURU\<close>, \<open>YAGIS ALANI\<close> and its Turkish spelling): besides \<open>k\<close> and its ASCII
  lower-case form, the dotless i (305) upper-cases to \<open>I\<close>, the long s (383) to \<open>S\<close>,
  and 287 and 351 to 286 and 350. No code point upper-cases to several characters that
  could form part of these words, so \<open>s.upper() == w\<close> holds exactly when the strings
  have the same length and agree character by character in this sense.
\<close>

datatype pyobj = PyStr pystr | PyFloat rat | PyInt int | PyNone

definition upper_is :: "nat \<Rightarrow> nat \<Rightarrow> bool" where
  "upper_is c k = (c = k \<or> (65 \<le> k \<and> k \<le> 90 \<and> c = k + 32) \<or> (k = 73 \<and> c = 305) \<or>
     (k = 83 \<and> c = 383) \<or> (k = 286 \<and> c = 287) \<or> (k = 350 \<and> c = 351))"

definition upper_eq :: "pystr \<Rightarrow> pystr \<Rightarrow> bool" where
  \<comment> \<open>\<open>s.upper() == w\<close>\<close>
  "upper_eq s w = list_all2 upper_is s w"

definition clean_num_arranger :: "pyobj \<Rightarrow> rat option" where
  "clean_num_arranger x =
     (case x of
        PyStr s \<Rightarrow>
          let x' = replace_chr 44 46 (strip s) in
          if upper_eq x' KURU \<or> x' = ustr ''nan'' \<or> x' = [] then None
          else (case py_float x' of Inr v \<Rightarrow> Some v | Inl e \<Rightarrow> None)
      | _ \<Rightarrow> None)"

text \<open>A full match of \<open>\d+,\d+\<close>: the numeric strings with a decimal comma.\<close>

definition comma_decimal :: "pystr \<Rightarrow> bool" where
  "comma_decimal s =
     (case dropWhile py_isdecimal s of
        [] \<Rightarrow> False
      | c # b \<Rightarrow> takeWhile py_isdecimal s \<noteq> [] \<and> c = 44 \<and> b \<noteq> [] \<and> list_all py_isdecimal b)"

section \<open>Station codes and station lines\<close>

text \<open>
  A match of \<open>X\d{2}Y\d{3}\<close> at the head of a string, for letter classes \<open>X\<close> and
  \<open>Y\<close>: the seven matched characters. The codes of the yearbooks have the shape
  \<open>[DE]\d{2}A\d{3}\<close>; some scripts look for the wider shape \<open>[A-Z]\d{2}[A-Z]\d{3}\<close>.
\<close>

definition code_at :: "(nat \<Rightarrow> bool) \<Rightarrow> (nat \<Rightarrow> bool) \<Rightarrow> pystr \<Rightarrow> pystr option" where
  "code_at X Y s =
     (let t = take 7 s in
      if length t = 7 \<and> X (t ! 0) \<and> py_isdecimal (t ! 1) \<and> py_isdecimal (t ! 2) \<and> Y (t ! 3) \<and>
         py_isdecimal (t ! 4) \<and> py_isdecimal (t ! 5) \<and> py_isdecimal (t ! 6)
      then Some t else None)"

definition D_or_E :: "nat \<Rightarrow> bool" where
  \<comment> \<open>the class \<open>[DE]\<close>\<close>
  "D_or_E c = (c = 68 \<or> c = 69)"

definition letter_A :: "nat \<Rightarrow> bool" where
  "letter_A c = (c = 65)"

text \<open>
  \<open>re.search\<close> with a matcher for one position: the match at the leftmost position where
  there is one.
\<close>

fun search :: "(pystr \<Rightarrow> 'a option) \<Rightarrow> pystr \<Rightarrow> 'a option" where
  "search m [] = m []"
| "search m (c # cs) = (case m (c # cs) of Some r \<Rightarrow> Some r | None \<Rightarrow> search m cs)"

text \<open>
  \<open>s.replace(p, '')\<close> for a non-empty \<open>p\<close>: the occurrences of \<open>p\<close> are removed from left
  to right, without overlap. The counter is the number of characters of the occurrence
  being removed that are still to be dropped.
\<close>

fun remove_from :: "pystr \<Rightarrow> nat \<Rightarrow> pystr \<Rightarrow> pystr" where
  "remove_from p k [] = []"
| "remove_from p k (c # cs) =
     (if 0 < k then remove_from p (k - 1) cs
      else if startswith (c # cs) p then remove_from p (length p - 1) cs
      else c # remove_from p 0 cs)"

definition remove_sub :: "pystr \<Rightarrow> pystr \<Rightarrow> pystr" where
  "remove_sub p s = remove_from p 0 s"

text \<open>\<open>re.sub(r'\s+', ' ', s)\<close>: every maximal run of whitespace becomes one space.\<close>

function collapse_spaces :: "pystr \<Rightarrow> pystr" where
  "collapse_spaces [] = []"
| "collapse_spaces (c # cs) =
     (if py_isspace c then 32 # collapse_spaces (dropWhile py_isspace cs)
      else c # collapse_spaces cs)"
  by pat_completeness auto
termination
  by (relation "measure length") (auto simp: length_dropWhile_le less_Suc_eq_le)

text \<open>
  The group of \<open>\s+(.+)\<close> (\<open>k = 1\<close>) or \<open>\s*(.+)\<close> (\<open>k = 0\<close>) at the head of a
  string. The whitespace pattern takes the whole run of whitespace and \<open>(.+)\<close> the rest
  up to the next line feed; when the whitespace runs to the end of the string, the
  whitespace pattern gives characters back and \<open>(.+)\<close> is the last character of the run
  (the first \<open>k\<close> apart) that is not a line feed.
\<close>

definition spaces_then_rest :: "nat \<Rightarrow> pystr \<Rightarrow> pystr option" where
  "spaces_then_rest k r =
     (let w = takeWhile py_isspace r; t = dropWhile py_isspace r in
      if length w < k then None
      else if t \<noteq> [] then Some (takeWhile (\<lambda>c. c \<noteq> 10) t)
      else (case filter (\<lambda>c. c \<noteq> 10) (drop k w) of
              [] \<Rightarrow> None
            | g # gs \<Rightarrow> Some [last (g # gs)]))"

text \<open>
  \<open>new_pdf_reader_2020.py\<close>: \<open>extract_station_info(lines)\<close>. \<open>match_code_name\<close> is
  \<open>re.match(r"([A-Z]\d{2}[A-Z]\d{3})\s+(.+)", line)\<close> with its two groups.
\<close>

record station_info =
  station_code :: pystr
  station_name :: pystr

definition match_code_name :: "pystr \<Rightarrow> (pystr \<times> pystr) option" where
  "match_code_name line =
     (case code_at ascii_upper ascii_upper line of
        None \<Rightarrow> None
      | Some code \<Rightarrow>
          (case spaces_then_rest 1 (drop 7 line) of
             None \<Rightarrow> None
           | Some name \<Rightarrow> Some (code, name)))"

fun extract_station_info :: "pystr list \<Rightarrow> station_info option" where
  "extract_station_info [] = None"
| "extract_station_info (line # lines) =
     (let line' = strip line in
      if line' = [] then extract_station_info lines
      else case match_code_name line' of
             Some (code, name) \<Rightarrow> Some \<lparr>station_code = code, station_name = strip name\<rparr>
           | None \<Rightarrow> extract_station_info lines)"

text \<open>
  \<open>pdf_flow_extractor.py\<close>: \<open>parse_station_info(line)\<close>, which returns the pair
  \<open>(station_code, station_name)\<close> or \<open>(None, None)\<close>.
\<close>

definition parse_station_info :: "pystr \<Rightarrow> pystr option \<times> pystr option" where
  "parse_station_info line =
     (case search (code_at ascii_upper ascii_upper) line of
        Some code \<Rightarrow>
          let name = strip (remove_sub code line);
              name' = strip (collapse_spaces name)
          in (Some code, Some name')
      | None \<Rightarrow> (None, None))"

section \<open>Patterns under \<open>re.IGNORECASE\<close>\<close>

text \<open>
  \<open>ci k c\<close>: the text character \<open>c\<close> matches the pattern letter \<open>k\<close> when the pattern is
  compiled with \<open>re.IGNORECASE\<close>. Python compares the simple lower-case forms and adds a
  few equivalences; for the letters that occur in the patterns of these scripts (ASCII,
  and the Turkish letters 214, 220, 286, 287, 304, 305, 350, 351) the lower-case form is
  \<open>ci_lower\<close>, where the Kelvin sign 8490 lowers to \<open>k\<close> and the dotted capital I to
  \<open>i\<close>, and the equivalences are \<open>i\<close> with the dotless i and \<open>s\<close> with the long s.
  A character that is not a letter matches only itself.
\<close>

definition ci_lower :: "nat \<Rightarrow> nat" where
  "ci_lower c =
     (if 65 \<le> c \<and> c \<le> 90 then c + 32
      else if c = 304 then 105
      else if c = 8490 then 107
      else if c = 214 \<or> c = 220 then c + 32
      else if c = 286 \<or> c = 350 then c + 1
      else c)"

definition ci :: "nat \<Rightarrow> nat \<Rightarrow> bool" where
  "ci k c =
     (let lk = ci_lower k; lc = ci_lower c in
      lc = lk \<or> (lk \<in> {105, 305} \<and> lc \<in> {105, 305}) \<or> (lk \<in> {115, 383} \<and> lc \<in> {115, 383}))"

text \<open>
  A pattern that is a sequence of single characters and whitespace runs is matched at the
  head of a string from left to right. \<open>Spaces\<close> is \<open>\s*\<close> and \<open>Spaces1\<close> is \<open>\s+\<close>; in
  every pattern below they are followed by a character that is not whitespace (or end the
  pattern), so that taking the whole run is the only way to match. The result is the rest
  of the string after the match.
\<close>

datatype atom = One "nat \<Rightarrow> bool" | Spaces | Spaces1

fun match_atoms :: "atom list \<Rightarrow> pystr \<Rightarrow> pystr option" where
  "match_atoms [] s = Some s"
| "match_atoms (One p # as) [] = None"
| "match_atoms (One p # as) (c # cs) = (if p c then match_atoms as cs else None)"
| "match_atoms (Spaces # as) s = match_atoms as (dropWhile py_isspace s)"
| "match_atoms (Spaces1 # as) [] = None"
| "match_atoms (Spaces1 # as) (c # cs) =
     (if py_isspace c then match_atoms as (dropWhile py_isspace cs) else None)"

definition lit :: "pystr \<Rightarrow> atom list" where
  \<comment> \<open>a literal string\<close>
  "lit w = map (\<lambda>k. One (\<lambda>c. c = k)) w"

definition lit_ci :: "pystr \<Rightarrow> atom list" where
  \<comment> \<open>a literal string under \<open>re.IGNORECASE\<close>\<close>
  "lit_ci w = map (\<lambda>k. One (ci k)) w"

definition matches :: "atom list \<Rightarrow> pystr \<Rightarrow> bool" where
  "matches as s = (match_atoms as s \<noteq> None)"

section \<open>new\_pdf\_reader\_2020.py: the monthly table\<close>

text \<open>Running a function that can raise over a list: the first exception ends the run.\<close>

fun map_err :: "('a \<Rightarrow> error + 'b) \<Rightarrow> 'a list \<Rightarrow> error + 'b list" where
  "map_err f [] = Inr []"
| "map_err f (x # xs) =
     (case f x of
        Inl e \<Rightarrow> Inl e
      | Inr y \<Rightarrow> (case map_err f xs of Inl e \<Rightarrow> Inl e | Inr ys \<Rightarrow> Inr (y # ys)))"

definition month_short :: "pystr list" where
  "month_short = map ustr [''oct'', ''nov'', ''dec'', ''jan'', ''feb'', ''mar'', ''apr'', ''may'',
     ''jun'', ''jul'', ''aug'', ''sep'']"

definition MIL_M3 :: pystr where
  \<comment> \<open>the label \<open>M\<close>, dotted capital I, \<open>L. M3\<close>\<close>
  "MIL_M3 = [77, 304] @ ustr ''L. M3''"

definition labels :: "pystr list" where
  "labels = [ustr ''Maks.'', ustr ''Min.'', ustr ''Ortalama'', ustr ''LT/SN/Km2'', ustr ''AKIM mm.'',
     MIL_M3]"

definition suffixes :: "pystr list" where
  "suffixes = map ustr [''max_flow_m3s'', ''min_flow_m3s'', ''avg_flow_m3s'', ''lt_sn_km2'', ''mm'',
     ''mil_m3'']"

definition field_name :: "pystr \<Rightarrow> pystr \<Rightarrow> pystr" where
  \<comment> \<open>\<open>f"{month}_{suffix}"\<close>\<close>
  "field_name month suffix = month @ [95] @ suffix"

definition index_of :: "'a list \<Rightarrow> 'a \<Rightarrow> nat" where
  \<comment> \<open>\<open>xs.index(x)\<close> for an \<open>x\<close> that is in the list\<close>
  "index_of xs x = length (takeWhile (\<lambda>y. y \<noteq> x) xs)"

definition digit_comma_dot :: "nat \<Rightarrow> bool" where
  \<comment> \<open>the class \<open>[\d,\.]\<close>\<close>
  "digit_comma_dot c = (py_isdecimal c \<or> c = 44 \<or> c = 46)"

record monthly_state =
  monthly_data :: "pystr \<rightharpoonup> rat option"
  current_label :: "pystr option"
  current_values :: "rat option list"

text \<open>
  The block that stores the values collected for the current label, run when the next
  label starts and once more after the last line: month \<open>i\<close> gets the \<open>i\<close>-th collected
  value, and \<open>0.0\<close> when fewer were collected. Nothing is stored while there is no
  current label or no value.
\<close>

definition store_month :: "pystr \<Rightarrow> rat option list \<Rightarrow> (pystr \<rightharpoonup> rat option) \<Rightarrow> nat \<Rightarrow>
    (pystr \<rightharpoonup> rat option)" where
  "store_month suffix vs d month_idx =
     d(field_name (month_short ! month_idx) suffix \<mapsto>
         (if month_idx < length vs then vs ! month_idx else Some 0))"

definition save_label :: "monthly_state \<Rightarrow> (pystr \<rightharpoonup> rat option)" where
  "save_label st =
     (case current_label st of
        None \<Rightarrow> monthly_data st
      | Some label \<Rightarrow>
          if current_values st = [] then monthly_data st
          else
            let suffix = suffixes ! index_of labels label in
            foldl (store_month suffix (current_values st)) (monthly_data st)
              [0 ..< length month_short])"

definition label_starts :: "pystr \<Rightarrow> pystr \<Rightarrow> bool" where
  \<comment> \<open>\<open>line.startswith(label) or re.match(rf"^{re.escape(label)}\s+", line, re.IGNORECASE)\<close>\<close>
  "label_starts line label = (startswith line label \<or> matches (lit_ci label @ [Spaces1]) line)"

definition monthly_step :: "monthly_state \<Rightarrow> pystr \<Rightarrow> error + monthly_state" where
  "monthly_step st line0 =
     (let line = strip line0 in
      if line = [] then Inr st
      else
        case find (label_starts line) labels of
          Some label \<Rightarrow>
            (let rest_of_line = strip (drop (length label) line);
                 numbers = findall_class digit_comma_dot rest_of_line
             in case map_err (\<lambda>n. extract_number n False) numbers of
                  Inl e \<Rightarrow> Inl e
                | Inr vs \<Rightarrow>
                    Inr \<lparr>monthly_data = save_label st, current_label = Some label,
                         current_values = vs\<rparr>)
        | None \<Rightarrow>
            (case current_label st of
               None \<Rightarrow> Inr st
             | Some l \<Rightarrow>
                 (case map_err (\<lambda>n. extract_number n False)
                         (findall_class digit_comma_dot line) of
                    Inl e \<Rightarrow> Inl e
                  | Inr vs \<Rightarrow> Inr (st\<lparr>current_values := current_values st @ vs\<rparr>))))"

fun monthly_loop :: "monthly_state \<Rightarrow> pystr list \<Rightarrow> error + monthly_state" where
  "monthly_loop st [] = Inr st"
| "monthly_loop st (line # lines) =
     (case monthly_step st line of Inl e \<Rightarrow> Inl e | Inr st' \<Rightarrow> monthly_loop st' lines)"

definition extract_monthly_data :: "pystr list \<Rightarrow> error + (pystr \<rightharpoonup> rat option)" where
  "extract_monthly_data lines =
     (case monthly_loop \<lparr>monthly_data = Map.empty, current_label = None, current_values = []\<rparr>
             lines of
        Inl e \<Rightarrow> Inl e
      | Inr st \<Rightarrow> Inr (save_label st))"

section \<open>table\_arranger.py: the monthly values of a block\<close>

text \<open>
  \<open>re.search(rf"{label}\s+([0-9\.\,\sKURU]+)", block, flags=re.I)\<close>. The label is put
  into the pattern as it is, so a point in it matches any character but a line feed.
  \<open>label_row_at\<close> is the group of a match at the head of the string: after the label,
  \<open>\s+\<close> takes the run of whitespace and the group the rest of the run of the class,
  which contains the whitespace; when that run is whitespace only, \<open>\s+\<close> leaves its last
  character to the group.
\<close>

definition label_atoms :: "pystr \<Rightarrow> atom list" where
  "label_atoms label = map (\<lambda>k. if k = 46 then One (\<lambda>c. c \<noteq> 10) else One (ci k)) label"

definition row_class :: "nat \<Rightarrow> bool" where
  \<comment> \<open>the class \<open>[0-9\.\,\sKURU]\<close> under \<open>re.I\<close>\<close>
  "row_class c = (ascii_digit c \<or> c = 46 \<or> c = 44 \<or> py_isspace c \<or> ci 75 c \<or> ci 85 c \<or> ci 82 c)"

definition label_row_at :: "pystr \<Rightarrow> pystr \<Rightarrow> pystr option" where
  "label_row_at label s =
     (case match_atoms (label_atoms label) s of
        None \<Rightarrow> None
      | Some r \<Rightarrow>
          let w = takeWhile py_isspace r; g = takeWhile row_class r in
          if w = [] then None
          else if length w < length g then Some (drop (length w) g)
          else if 2 \<le> length w then Some [last w]
          else None)"

definition py_split :: "pystr \<Rightarrow> pystr list" where
  \<comment> \<open>\<open>s.split()\<close>\<close>
  "py_split s = findall_class (\<lambda>c. \<not> py_isspace c) s"

definition MONTHS :: "pystr list" where
  "MONTHS = map ustr [''oct'', ''nov'', ''dec'', ''jan'', ''feb'', ''mar'', ''apr'', ''may'', ''jun'',
     ''jul'', ''aug'', ''sep'']"

definition patterns :: "(pystr \<times> pystr) list" where
  "patterns = [(ustr ''Maks.'', ustr ''max''), (ustr ''Min.'', ustr ''min''),
     (ustr ''Ortalama'', ustr ''avg''), (ustr ''LT/SN/Km2'', ustr ''ltsnkm2''),
     (ustr ''AKIM mm.'', ustr ''mm''), (MIL_M3, ustr ''mil_m3'')]"

definition block_row :: "pystr \<Rightarrow> pystr \<Rightarrow> rat option list" where
  \<comment> \<open>the twelve values stored for one label: \<open>None\<close> throughout when the search fails\<close>
  "block_row block label =
     (case search (label_row_at label) block of
        Some g \<Rightarrow>
          let nums = map (\<lambda>n. clean_num_arranger (PyStr n)) (py_split g)
          in take 12 nums @ replicate (12 - length nums) None
      | None \<Rightarrow> replicate 12 None)"

definition store_row :: "pystr \<Rightarrow> (pystr \<rightharpoonup> rat option) \<Rightarrow> pystr \<times> pystr \<Rightarrow> (pystr \<rightharpoonup> rat option)" where
  "store_row block d lk =
     (let nums = block_row block (fst lk) in
      foldl (\<lambda>d i. d(field_name (MONTHS ! i) (snd lk) \<mapsto> nums ! i)) d [0 ..< length MONTHS])"

definition parse_block_monthly :: "pystr \<Rightarrow> (pystr \<rightharpoonup> rat option)" where
  \<comment> \<open>step 1 of \<open>parse_block\<close>: the monthly entries of \<open>data\<close>\<close>
  "parse_block_monthly block = foldl (store_row block) Map.empty patterns"

section \<open>Dictionaries, printed lines and files\<close>

text \<open>
  A Python \<open>dict\<close> with string keys is an association list in insertion order; a list of
  such dictionaries is what becomes a \<open>DataFrame\<close>. A printed or logged line is kept as
  a value that names the message and its arguments.
\<close>

type_synonym dict = "(pystr \<times> pyobj) list"

datatype message =
    Found pyobj pyobj pyobj
  | ErrorNotFound pystr
  | WarnNoArea
  | Done nat pystr
  | Opening pystr
  | Processing nat
  | PageEmpty nat
  | RegionInvalid nat
  | StationNotAllowed nat pystr
  | StationExtracted nat pyobj
  | PageNoStation nat
  | NoDataExtracted
  | Saved nat pystr
  | ErrorExit error
  | LogInitialized pystr
  | LogColumns nat
  | LogProcessingLine pystr
  | LogFoundValues nat pystr
  | LogWarnFewValues nat pystr
  | LogFoundStation pystr nat
  | LogExtracted pystr nat nat
  | LogWarnMissing pystr nat nat
  | LogWarnNoYear pystr
  | LogProcessingFile pystr nat
  | LogFileDone pystr nat nat
  | LogErrorPdf pystr
  | LogErrorDirectory pystr
  | LogFoundFiles nat
  | LogWarnDuplicate pyobj
  | LogCsvUpdated pystr
  | LogTotal nat

text \<open>
  Collecting the records of a loop whose body can raise: the records appended before the
  exception stay in the list (their lines have been printed), and the exception ends the
  loop.
\<close>

fun collect :: "('a \<Rightarrow> 'b list \<times> error option) \<Rightarrow> 'a list \<Rightarrow> 'b list \<times> error option" where
  "collect f [] = ([], None)"
| "collect f (x # xs) =
     (case f x of
        (ys, Some e) \<Rightarrow> (ys, Some e)
      | (ys, None) \<Rightarrow> (case collect f xs of (zs, r) \<Rightarrow> (ys @ zs, r)))"

text \<open>
  Splitting a text at every separator character: \<open>n\<close> separators give \<open>n + 1\<close> pieces.
  \<open>text.split('\n')\<close> is \<open>split_on\<close> at the line feed. \<open>text.splitlines()\<close> splits at the
  line boundaries of \<open>is_linebreak\<close>, takes a carriage return with a line feed after it as
  one boundary and has no empty last piece; both differences are empty pieces, which the
  scripts drop together with the other blank lines (\<open>stripped_lines\<close>).
\<close>

fun split_on :: "(nat \<Rightarrow> bool) \<Rightarrow> pystr \<Rightarrow> pystr list" where
  "split_on p [] = [[]]"
| "split_on p (c # cs) =
     (if p c then [] # split_on p cs
      else (case split_on p cs of [] \<Rightarrow> [[c]] | l # ls \<Rightarrow> (c # l) # ls))"

definition is_linebreak :: "nat \<Rightarrow> bool" where
  "is_linebreak c = (c \<in> set [10, 11, 12, 13, 28, 29, 30, 133, 8232, 8233])"

definition is_newline :: "nat \<Rightarrow> bool" where
  "is_newline c = (c = 10)"

definition stripped_lines :: "(nat \<Rightarrow> bool) \<Rightarrow> pystr \<Rightarrow> pystr list" where
  \<comment> \<open>\<open>[ln.strip() for ln in ... if ln.strip()]\<close>\<close>
  "stripped_lines sep text = filter (\<lambda>l. l \<noteq> []) (map strip (split_on sep text))"

section \<open>catchment\_data\_km2.py\<close>

definition TARGET_STATIONS :: "pystr list" where
  "TARGET_STATIONS = map ustr
     [''E22A065'', ''E22A066'', ''D22A093'', ''E22A071'', ''D14A185'', ''E22A054'', ''E22A063'',
      ''E14A018'', ''D14A162'', ''D14A186'', ''D22A105'', ''E22A053'', ''D14A172'', ''D14A117'',
      ''E14A027'', ''D22A106'', ''D14A200'', ''E14A002'', ''D14A179'', ''D22A098'', ''D22A159'',
      ''D14A064'', ''E14A038'', ''D14A201'', ''D14A184'', ''D14A211'', ''D14A208'', ''D14A214'',
      ''D14A207'', ''D14A141'', ''E22A062'', ''E14A040'', ''D14A215'', ''D14A176'', ''D14A011'',
      ''D14A188'', ''D14A081'']"

text \<open>
  \<open>re.match(r"^([DE]\d{2}A\d{3})\s", line)\<close> and \<open>m.group(1).upper()\<close>: a whitespace
  character must follow the code. Upper-casing leaves the code as it is (its letters are
  capitals and digits have no case).
\<close>

definition station_line_code :: "pystr \<Rightarrow> pystr option" where
  "station_line_code line =
     (case code_at D_or_E letter_A line of
        None \<Rightarrow> None
      | Some code \<Rightarrow> if 7 < length line \<and> py_isspace (line ! 7) then Some code else None)"

text \<open>
  \<open>w in line.upper()\<close> for the two spellings of the catchment label; see \<open>upper_is\<close> for
  why the comparison can go character by character.
\<close>

definition upper_startswith :: "pystr \<Rightarrow> pystr \<Rightarrow> bool" where
  "upper_startswith s w = (length w \<le> length s \<and> upper_eq (take (length w) s) w)"

fun upper_contains :: "pystr \<Rightarrow> pystr \<Rightarrow> bool" where
  "upper_contains [] w = (w = [])"
| "upper_contains (c # cs) w = (upper_startswith (c # cs) w \<or> upper_contains cs w)"

definition YAGIS_ALANI_TR :: pystr where
  \<comment> \<open>the label with G breve (286) and S cedilla (350)\<close>
  "YAGIS_ALANI_TR = ustr ''YA'' @ [286, 73, 350] @ ustr '' ALANI''"

definition YAGIS_ALANI :: pystr where
  "YAGIS_ALANI = ustr ''YAGIS ALANI''"

definition has_area_label :: "pystr \<Rightarrow> bool" where
  "has_area_label line = (upper_contains line YAGIS_ALANI_TR \<or> upper_contains line YAGIS_ALANI)"

definition number_class :: "nat \<Rightarrow> bool" where
  \<comment> \<open>the class \<open>[0-9\.,]\<close>\<close>
  "number_class c = (ascii_digit c \<or> c = 46 \<or> c = 44)"

definition area_atoms :: "atom list" where
  \<comment> \<open>\<open>YA[G,286]I[S,350]\s*ALANI\s*:\s*\<close> under \<open>re.I\<close>\<close>
  "area_atoms = [One (ci 89), One (ci 65), One (\<lambda>c. ci 71 c \<or> ci 286 c), One (ci 73),
     One (\<lambda>c. ci 83 c \<or> ci 350 c), Spaces] @ lit_ci (ustr ''ALANI'') @
     [Spaces, One (\<lambda>c. c = 58), Spaces]"

definition area_at :: "pystr \<Rightarrow> pystr option" where
  "area_at s =
     (case match_atoms area_atoms s of
        None \<Rightarrow> None
      | Some r \<Rightarrow> let g = takeWhile number_class r in if g = [] then None else Some g)"

definition area_match :: "pystr \<Rightarrow> pystr option" where
  \<comment> \<open>group 1 of \<open>re.search(r"YA[..]I[..]\s*ALANI\s*:\s*([0-9\.,]+)", line, flags=re.I)\<close>\<close>
  "area_match line = search area_at line"

text \<open>
  The station a line stands for, if the loop goes on with it: the line matches and its
  code is in the target set. The functions take the target set as an argument; the script
  runs them with \<open>TARGET_STATIONS\<close>.
\<close>

definition located_code :: "pystr list \<Rightarrow> pystr \<Rightarrow> pystr option" where
  "located_code targets line =
     (case station_line_code line of
        None \<Rightarrow> None
      | Some code \<Rightarrow> if code \<notin> set targets then None else Some code)"

text \<open>
  The body of the loop over the lines of a page, for line \<open>i\<close>: the records it appends
  (none or one) and the exception of \<open>clean_num\<close>, if it raises. The label is looked for
  in the ten lines from line \<open>i\<close> on, and only the first line with the label is tried.
\<close>

definition line_catchment :: "pystr list \<Rightarrow> nat \<Rightarrow> pystr list \<Rightarrow> nat \<Rightarrow> dict list \<times> error option" where
  "line_catchment targets pno lines i =
     (case located_code targets (lines ! i) of
        None \<Rightarrow> ([], None)
      | Some code \<Rightarrow>
          (case find has_area_label (take 10 (drop i lines)) of
             None \<Rightarrow> ([], None)
           | Some l \<Rightarrow>
               (case area_match l of
                  None \<Rightarrow> ([], None)
                | Some g \<Rightarrow>
                    (case clean_num g of
                       Inl e \<Rightarrow> ([], Some e)
                     | Inr val \<Rightarrow>
                         ([[(ustr ''station_code'', PyStr code),
                            (ustr ''catchment_area_km2'', PyFloat val),
                            (ustr ''page'', PyInt (int pno + 1))]], None)))))"

definition page_catchments :: "pystr list \<Rightarrow> nat \<times> pystr \<Rightarrow> dict list \<times> error option" where
  "page_catchments targets pt =
     (case pt of (pno, text) \<Rightarrow>
        if strip text = [] then ([], None)
        else
          let lines = stripped_lines is_linebreak text
          in collect (line_catchment targets pno lines) [0 ..< length lines])"

definition extract_catchments :: "pystr list \<Rightarrow> pystr list \<Rightarrow> dict list \<times> error option" where
  \<comment> \<open>the second argument is the text of the pages of the opened document\<close>
  "extract_catchments targets doc = collect (page_catchments targets) (zip [0 ..< length doc] doc)"

text \<open>
  The stations of a page that the loop goes on with, from the top, and the locator as
  the specification words it: the first line that matches \<open>^[DE]\d{2}A\d{3}\<close> decides,
  and its code is returned when it is in the target set.
\<close>

definition located_codes :: "pystr list \<Rightarrow> pystr \<Rightarrow> pystr list" where
  "located_codes targets text =
     List.map_filter (located_code targets) (stripped_lines is_linebreak text)"

definition locator_spec :: "pystr list \<Rightarrow> pystr \<Rightarrow> pystr option" where
  "locator_spec targets text =
     (case List.map_filter (code_at D_or_E letter_A) (stripped_lines is_linebreak text) of
        [] \<Rightarrow> None
      | code # _ \<Rightarrow> if code \<in> set targets then Some code else None)"

section \<open>dsi\_final\_structured\_extractor.py: the field extractors\<close>

text \<open>
  \<open>re.findall\<close> with a matcher for one position that returns the group and the rest of
  the string after the match: the groups of the matches from left to right, without
  overlap. Every pattern used with it matches at least one character. The counter is the
  number of characters of the last match that still lie ahead.
\<close>

fun findall_from :: "(pystr \<Rightarrow> (pystr \<times> pystr) option) \<Rightarrow> nat \<Rightarrow> pystr \<Rightarrow> pystr list" where
  "findall_from m k [] = []"
| "findall_from m k (c # cs) =
     (if 0 < k then findall_from m (k - 1) cs
      else case m (c # cs) of
             None \<Rightarrow> findall_from m 0 cs
           | Some (g, r) \<Rightarrow> g # findall_from m (length cs - length r) cs)"

definition findall :: "(pystr \<Rightarrow> (pystr \<times> pystr) option) \<Rightarrow> pystr \<Rightarrow> pystr list" where
  "findall m s = findall_from m 0 s"

text \<open>
  \<open>.*?\<close> before the rest of a pattern: the rest is tried at the current position first
  and then one character further on, as long as the character passed is not a line feed.
\<close>

fun lazy_dots :: "(pystr \<Rightarrow> 'a option) \<Rightarrow> pystr \<Rightarrow> 'a option" where
  "lazy_dots m [] = m []"
| "lazy_dots m (c # cs) =
     (case m (c # cs) of
        Some r \<Rightarrow> Some r
      | None \<Rightarrow> if c = 10 then None else lazy_dots m cs)"

text \<open>\<open>_extract_station_code(text)\<close>: \<open>matches[0]\<close> of \<open>re.findall(r'[A-Z]\d{2}[A-Z]\d{3}', text)\<close>.\<close>

definition extract_station_code :: "pystr \<Rightarrow> pystr option" where
  "extract_station_code text = search (code_at ascii_upper ascii_upper) text"

text \<open>
  \<open>_extract_coordinates(text)\<close>. A match of the pattern is three runs of digits separated
  by the degree sign (176), the apostrophe (39) and the double quote (34), whitespace,
  and one of the two words in any case; the function joins the first two matches.
\<close>

definition digits_then :: "nat \<Rightarrow> pystr \<Rightarrow> pystr option" where
  \<comment> \<open>\<open>\d+\<close> followed by the character \<open>k\<close>: the rest after \<open>k\<close>\<close>
  "digits_then k s =
     (if takeWhile py_isdecimal s = [] then None
      else case dropWhile py_isdecimal s of
             [] \<Rightarrow> None
           | c # r \<Rightarrow> if c = k then Some r else None)"

definition DOGU :: pystr where
  "DOGU = ustr ''Do'' @ [287] @ ustr ''u''"

definition coordinate_at :: "pystr \<Rightarrow> (pystr \<times> pystr) option" where
  "coordinate_at s =
     (case digits_then 176 s of
        None \<Rightarrow> None
      | Some r1 \<Rightarrow>
          (case digits_then 39 r1 of
             None \<Rightarrow> None
           | Some r2 \<Rightarrow>
               (case digits_then 34 r2 of
                  None \<Rightarrow> None
                | Some r3 \<Rightarrow>
                    (case match_atoms (Spaces # lit_ci DOGU) r3 of
                       Some r \<Rightarrow> Some (take (length s - length r) s, r)
                     | None \<Rightarrow>
                         (case match_atoms (Spaces # lit_ci (ustr ''Kuzey'')) r3 of
                            Some r \<Rightarrow> Some (take (length s - length r) s, r)
                          | None \<Rightarrow> None)))))"

definition extract_coordinates :: "pystr \<Rightarrow> pystr option" where
  "extract_coordinates text =
     (case findall coordinate_at text of
        m1 # m2 # _ \<Rightarrow> Some (m1 @ [32] @ m2)
      | _ \<Rightarrow> None)"

text \<open>
  \<open>_extract_catchment_area(text)\<close>: the label is looked for as it is written (with G breve
  and either S), and the number is the first one of the whole text.
\<close>

definition YAGIS_ALANI_S :: pystr where
  "YAGIS_ALANI_S = ustr ''YA'' @ [286] @ ustr ''IS ALANI''"

definition extract_catchment_area :: "pystr \<Rightarrow> rat option" where
  "extract_catchment_area text =
     (if contains text YAGIS_ALANI_TR \<or> contains text YAGIS_ALANI_S then normalize_number text
      else None)"

text \<open>
  \<open>_extract_annual_avg_flow(text, year)\<close>, with the pattern
  \<open>rf'{year}\s*Su\s*yilinda.*?(\d+[.,]\d+)\s*m3/sn'\<close> (dotless i in the word) under
  \<open>re.IGNORECASE\<close>; the first match is normalized. \<open>str_nat\<close> is \<open>str\<close> of a year.
\<close>

fun str_nat :: "nat \<Rightarrow> pystr" where
  "str_nat n = (if n < 10 then [48 + n] else str_nat (n div 10) @ [48 + n mod 10])"

declare str_nat.simps [simp del]

definition YILINDA :: pystr where
  "YILINDA = ustr ''y'' @ [305] @ ustr ''l'' @ [305] @ ustr ''nda''"

definition decimal_number_then :: "atom list \<Rightarrow> pystr \<Rightarrow> (pystr \<times> pystr) option" where
  \<comment> \<open>\<open>(\d+[.,]\d+)\<close> followed by a pattern: the group and the rest after the pattern\<close>
  "decimal_number_then as s =
     (let d1 = takeWhile py_isdecimal s in
      case dropWhile py_isdecimal s of
        [] \<Rightarrow> None
      | c # r \<Rightarrow>
          let d2 = takeWhile py_isdecimal r in
          if d1 \<noteq> [] \<and> (c = 46 \<or> c = 44) \<and> d2 \<noteq> []
          then (case match_atoms as (dropWhile py_isdecimal r) of
                  None \<Rightarrow> None
                | Some r' \<Rightarrow> Some (d1 @ [c] @ d2, r'))
          else None)"

definition annual_flow_at :: "nat \<Rightarrow> pystr \<Rightarrow> (pystr \<times> pystr) option" where
  "annual_flow_at year s =
     (case match_atoms (lit (str_nat year) @ [Spaces] @ lit_ci (ustr ''Su'') @ [Spaces] @
             lit_ci YILINDA) s of
        None \<Rightarrow> None
      | Some r \<Rightarrow> lazy_dots (decimal_number_then (Spaces # lit_ci (ustr ''m3/sn''))) r)"

definition extract_annual_avg_flow :: "pystr \<Rightarrow> nat \<Rightarrow> rat option" where
  "extract_annual_avg_flow text year =
     (case findall (annual_flow_at year) text of
        [] \<Rightarrow> None
      | m # _ \<Rightarrow> normalize_number m)"

text \<open>
  \<open>_extract_annual_totals(text)\<close>: the first match of the pattern for the yearly total,
  and the last matches of \<open>(\d+[.,]?\d*)\s*MM\.\<close> and \<open>(\d+[.,]?\d*)\s*LT/SN/Km2\<close>.
\<close>

definition MILYON :: pystr where
  "MILYON = [77, 304] @ ustr ''LYON''"

definition annual_total_at :: "pystr \<Rightarrow> (pystr \<times> pystr) option" where
  "annual_total_at s =
     (case match_atoms (lit_ci (ustr ''SU'') @ [Spaces] @ lit_ci (ustr ''YILI'')) s of
        None \<Rightarrow> None
      | Some r \<Rightarrow>
          lazy_dots
            (\<lambda>t. case match_atoms (lit_ci (ustr ''YILLIK'') @ [Spaces] @ lit_ci (ustr ''TOPLAM'') @
                          [Spaces] @ lit_ci (ustr ''AKIM'')) t of
                   None \<Rightarrow> None
                 | Some r' \<Rightarrow>
                     lazy_dots
                       (decimal_number_then
                          ([Spaces] @ lit_ci MILYON @ [Spaces] @ lit_ci (ustr ''M3''))) r')
            r)"

definition number_then :: "atom list \<Rightarrow> pystr \<Rightarrow> (pystr \<times> pystr) option" where
  \<comment> \<open>\<open>(\d+[.,]?\d*)\<close> followed by a pattern that starts with \<open>\s*\<close> and a letter\<close>
  "number_then as s =
     (let d1 = takeWhile py_isdecimal s; r = dropWhile py_isdecimal s;
          g = (case r of
                 [] \<Rightarrow> d1
               | c # r1 \<Rightarrow> if c = 46 \<or> c = 44 then d1 @ [c] @ takeWhile py_isdecimal r1 else d1)
      in if d1 = [] then None
         else (case match_atoms as (drop (length g) s) of
                 None \<Rightarrow> None
               | Some r' \<Rightarrow> Some (g, r')))"

definition last_option :: "'a list \<Rightarrow> 'a option" where
  "last_option xs = (if xs = [] then None else Some (last xs))"

definition extract_annual_totals :: "pystr \<Rightarrow> rat option \<times> rat option \<times> rat option" where
  "extract_annual_totals text =
     (let annual_total = (case findall annual_total_at text of
                            [] \<Rightarrow> None | m # _ \<Rightarrow> normalize_number m);
          mm_total = (case last_option (findall (number_then (Spaces # lit (ustr ''MM.''))) text) of
                        None \<Rightarrow> None | Some m \<Rightarrow> normalize_number m);
          avg_ltsnkm2 = (case last_option
                                (findall (number_then (Spaces # lit (ustr ''LT/SN/Km2''))) text) of
                           None \<Rightarrow> None | Some m \<Rightarrow> normalize_number m)
      in (annual_total, mm_total, avg_ltsnkm2))"

section \<open>dsi\_final\_structured\_extractor.py: the extractor object and its run\<close>

text \<open>
  The fields of a \<open>DSIFinalExtractor\<close> are a record; the files and the log belong to the
  world the script runs in. A directory is the list of its entries, each a file name with
  what \<open>fitz.open\<close> gives for it: the texts of the pages, or the exception it raises.
  A method that logs or writes a file takes the state and returns the new one.
\<close>

record extractor =
  pdf_directory :: pystr
  output_file :: pystr
  target_stations :: "pystr list"
  months :: "pystr list"
  metrics :: "pystr list"
  metric_keywords :: "(pystr \<times> pystr list) list"

record world =
  directories :: "pystr \<rightharpoonup> (pystr \<times> (error + pystr list)) list"
  pdf_files :: "pystr \<rightharpoonup> pystr list"
  csv_files :: "pystr \<rightharpoonup> pyobj list list"
  printed :: "message list"

record ext_state =
  self :: extractor
  world :: world

definition log_msg :: "message \<Rightarrow> ext_state \<Rightarrow> ext_state" where
  "log_msg m st = st\<lparr>world := (world st)\<lparr>printed := printed (world st) @ [m]\<rparr>\<rparr>"

definition make_extractor :: "pystr \<Rightarrow> pystr \<Rightarrow> extractor" where
  \<comment> \<open>the assignments of \<open>__init__\<close>\<close>
  "make_extractor dir out =
     \<lparr>pdf_directory = dir, output_file = out,
      target_stations = map ustr
        [''D14A011'', ''D14A117'', ''D14A144'', ''D14A146'', ''D14A149'', ''D14A162'',
         ''D14A172'', ''D14A192'', ''D14A018'', ''D22A093'', ''D22A095'', ''D22A105'',
         ''D22A106'', ''D22A158'', ''E22A054'', ''D22A116'', ''E22A065''],
      months = map ustr [''oct'', ''nov'', ''dec'', ''jan'', ''feb'', ''mar'', ''apr'', ''may'',
        ''jun'', ''jul'', ''aug'', ''sep''],
      metrics = map ustr [''flow_max'', ''flow_min'', ''flow_avg'', ''ltsnkm2'', ''akim_mm'', ''milm3''],
      metric_keywords =
        [(ustr ''flow_max'', [ustr ''Maks.'', ustr ''MAKS.'']),
         (ustr ''flow_min'', [ustr ''Min.'', ustr ''MIN.'']),
         (ustr ''flow_avg'', [ustr ''Ortalama'', ustr ''ORTALAMA'']),
         (ustr ''ltsnkm2'', [ustr ''LT/SN/Km2'', ustr ''LT/SN/KM2'']),
         (ustr ''akim_mm'', [ustr ''AKIM mm.'', ustr ''AKIM MM.'']),
         (ustr ''milm3'', [MIL_M3, ustr ''MIL. M3''])]\<rparr>"

definition monthly_key :: "pystr \<Rightarrow> pystr \<Rightarrow> pystr" where
  \<comment> \<open>\<open>f"{month}_{metric}_m3"\<close>\<close>
  "monthly_key month metric = month @ [95] @ metric @ ustr ''_m3''"

definition monthly_keys :: "extractor \<Rightarrow> pystr list" where
  \<comment> \<open>the monthly columns, metric first\<close>
  "monthly_keys slf =
     concat (map (\<lambda>metric. map (\<lambda>month. monthly_key month metric) (months slf)) (metrics slf))"

definition metadata_keys :: "pystr list" where
  "metadata_keys = map ustr [''file'', ''page'', ''year'', ''station_code'', ''station_name'',
     ''coordinates'', ''catchment_area_km2'', ''annual_avg_flow_m3s'', ''annual_total_m3'',
     ''mm_total'', ''avg_ltsnkm2'']"

definition headers :: "extractor \<Rightarrow> pyobj list" where
  "headers slf = map PyStr (metadata_keys @ monthly_keys slf)"

definition initialize_csv :: "ext_state \<Rightarrow> ext_state" where
  \<comment> \<open>\<open>_initialize_csv\<close>: the output file is opened for writing and gets the header row\<close>
  "initialize_csv st =
     log_msg (LogColumns (length (headers (self st))))
       (log_msg (LogInitialized (output_file (self st)))
          (st\<lparr>world := (world st)\<lparr>csv_files :=
                (csv_files (world st))(output_file (self st) \<mapsto> [headers (self st)])\<rparr>\<rparr>))"

definition new_extractor :: "pystr \<Rightarrow> pystr \<Rightarrow> world \<Rightarrow> ext_state" where
  \<comment> \<open>\<open>DSIFinalExtractor(pdf_directory, output_file)\<close>\<close>
  "new_extractor dir out w = initialize_csv \<lparr>self = make_extractor dir out, world = w\<rparr>"

text \<open>
  \<open>_extract_monthly_data_structured(text)\<close>. The result, a dictionary of dictionaries,
  is a map on the pairs of month and metric. The method reads \<open>self.metric_keywords\<close>
  and \<open>self.months\<close> and writes to the log.
\<close>

type_synonym monthly = "(pystr \<times> pystr) \<rightharpoonup> rat option"

definition store_values :: "extractor \<Rightarrow> pystr \<Rightarrow> pystr list \<Rightarrow> monthly \<Rightarrow> monthly" where
  "store_values slf metric numbers d =
     foldl (\<lambda>d j. d((months slf ! j, metric) \<mapsto> normalize_number (numbers ! j))) d
       [0 ..< min (length (months slf)) (length numbers)]"

definition monthly_line :: "monthly \<times> ext_state \<Rightarrow> pystr \<Rightarrow> monthly \<times> ext_state" where
  "monthly_line ds line =
     (case ds of (d, st) \<Rightarrow>
        case find (\<lambda>mk. list_ex (contains line) (snd mk)) (metric_keywords (self st)) of
          None \<Rightarrow> (d, st)
        | Some (current_metric, keywords) \<Rightarrow>
            let st1 = log_msg (LogProcessingLine current_metric) st;
                numbers = findall_class digit_comma_dot line
            in if 12 \<le> length numbers
               then (store_values (self st) current_metric numbers d,
                     log_msg (LogFoundValues (length numbers) current_metric) st1)
               else (d, log_msg (LogWarnFewValues (length numbers) current_metric) st1))"

definition extract_monthly_data_structured :: "pystr \<Rightarrow> ext_state \<Rightarrow> monthly \<times> ext_state" where
  "extract_monthly_data_structured text st =
     foldl monthly_line (Map.empty, st) (split_on is_newline text)"

text \<open>
  The locator of \<open>_extract_station_data_structured\<close>: the lines at even index below 20,
  from the top; the first one whose first code is in the target set gives the station,
  and its name is what is left of the line without the code.
\<close>

fun every_second :: "'a list \<Rightarrow> 'a list" where
  "every_second [] = []"
| "every_second [x] = [x]"
| "every_second (x # y # xs) = x # every_second xs"

fun first_some :: "('a \<Rightarrow> 'b option) \<Rightarrow> 'a list \<Rightarrow> 'b option" where
  "first_some f [] = None"
| "first_some f (x # xs) = (case f x of Some y \<Rightarrow> Some y | None \<Rightarrow> first_some f xs)"

definition station_of_line :: "pystr list \<Rightarrow> pystr \<Rightarrow> (pystr \<times> pystr option) option" where
  "station_of_line targets line =
     (case extract_station_code line of
        None \<Rightarrow> None
      | Some code \<Rightarrow>
          if code \<in> set targets
          then (let name_part = strip (remove_sub code line)
                in Some (code, if name_part \<noteq> [] then Some name_part else None))
          else None)"

definition locate_station :: "pystr list \<Rightarrow> pystr \<Rightarrow> (pystr \<times> pystr option) option" where
  "locate_station targets page_text =
     first_some (station_of_line targets) (every_second (take 20 (split_on is_newline page_text)))"

text \<open>
  The loop over the lines that fills the three header fields: each field is extracted
  from a line as long as its value so far is \<open>None\<close>, empty or zero.
\<close>

definition falsy_str :: "pystr option \<Rightarrow> bool" where
  "falsy_str x = (x = None \<or> x = Some [])"

definition falsy_num :: "rat option \<Rightarrow> bool" where
  "falsy_num x = (x = None \<or> x = Some 0)"

fun header_loop :: "nat \<Rightarrow> pystr option \<times> rat option \<times> rat option \<Rightarrow> pystr list \<Rightarrow>
    pystr option \<times> rat option \<times> rat option" where
  "header_loop year (coordinates, catchment_area, annual_avg_flow) [] =
     (coordinates, catchment_area, annual_avg_flow)"
| "header_loop year (coordinates, catchment_area, annual_avg_flow) (line # lines) =
     header_loop year
       (if falsy_str coordinates then extract_coordinates line else coordinates,
        if falsy_num catchment_area then extract_catchment_area line else catchment_area,
        if falsy_num annual_avg_flow then extract_annual_avg_flow line year else annual_avg_flow)
       lines"

definition opt_float :: "rat option \<Rightarrow> pyobj" where
  "opt_float x = (case x of None \<Rightarrow> PyNone | Some v \<Rightarrow> PyFloat v)"

definition NA :: pystr where
  "NA = ustr ''N/A''"

definition monthly_value :: "monthly \<Rightarrow> pystr \<Rightarrow> pystr \<Rightarrow> rat option" where
  \<comment> \<open>\<open>monthly_data[month][metric]\<close> if both keys are there, else \<open>None\<close>\<close>
  "monthly_value d month metric = (case d (month, metric) of None \<Rightarrow> None | Some v \<Rightarrow> v)"

definition monthly_entries :: "extractor \<Rightarrow> monthly \<Rightarrow> dict" where
  "monthly_entries slf d =
     concat (map (\<lambda>metric. map (\<lambda>month. (monthly_key month metric,
         opt_float (monthly_value d month metric))) (months slf)) (metrics slf))"

definition extracted_values :: "extractor \<Rightarrow> monthly \<Rightarrow> nat" where
  "extracted_values slf d =
     length (filter (\<lambda>v. v \<noteq> PyNone) (map snd (monthly_entries slf d)))"

definition extract_station_data_structured ::
    "pystr \<Rightarrow> nat \<Rightarrow> pystr \<Rightarrow> nat \<Rightarrow> ext_state \<Rightarrow> dict option \<times> ext_state" where
  "extract_station_data_structured page_text page_num filename year st =
     (case locate_station (target_stations (self st)) page_text of
        None \<Rightarrow> (None, st)
      | Some (code, name) \<Rightarrow>
          let st1 = log_msg (LogFoundStation code page_num) st;
              lines = split_on is_newline page_text;
              (coordinates, catchment_area, annual_avg_flow) =
                 header_loop year (None, None, None) lines;
              (monthly_data, st2) = extract_monthly_data_structured page_text st1;
              (annual_total, mm_total, avg_ltsnkm2) = extract_annual_totals page_text;
              result =
                [(ustr ''file'', PyStr filename), (ustr ''page'', PyInt (int page_num)),
                 (ustr ''year'', PyInt (int year)), (ustr ''station_code'', PyStr code),
                 (ustr ''station_name'', PyStr (case name of None \<Rightarrow> NA | Some n \<Rightarrow> n)),
                 (ustr ''coordinates'',
                    PyStr (case coordinates of None \<Rightarrow> NA | Some c \<Rightarrow> if c = [] then NA else c)),
                 (ustr ''catchment_area_km2'', opt_float catchment_area),
                 (ustr ''annual_avg_flow_m3s'', opt_float annual_avg_flow),
                 (ustr ''annual_total_m3'', opt_float annual_total),
                 (ustr ''mm_total'', opt_float mm_total),
                 (ustr ''avg_ltsnkm2'', opt_float avg_ltsnkm2)] @
                monthly_entries (self st2) monthly_data;
              n = extracted_values (self st2) monthly_data;
              total_expected = length (metrics (self st2)) * length (months (self st2));
              st3 = log_msg (LogExtracted code year n) st2;
              st4 = (if 2 * n < total_expected then log_msg (LogWarnMissing code year n) st3 else st3)
          in (Some result, st4))"

text \<open>
  \<open>_process_pdf_structured(pdf_path)\<close>. The year is \<open>int\<close> of the first four digits
  in a row in the file name (\<open>os.path.basename\<close> of the path, which is the directory
  entry itself). An exception of \<open>fitz.open\<close> is caught and logged, and the records
  collected so far, none, are returned.
\<close>

definition four_digits_at :: "pystr \<Rightarrow> pystr option" where
  "four_digits_at s =
     (if 4 \<le> length s \<and> list_all py_isdecimal (take 4 s) then Some (take 4 s) else None)"

definition first_year :: "pystr \<Rightarrow> nat option" where
  \<comment> \<open>\<open>int(re.search(r'(\d{4})', name).group(1))\<close>, \<open>None\<close> when there is no match\<close>
  "first_year name = map_option digits_val (search four_digits_at name)"

definition page_step :: "pystr \<Rightarrow> nat \<Rightarrow> dict list \<times> ext_state \<Rightarrow> nat \<times> pystr \<Rightarrow>
    dict list \<times> ext_state" where
  "page_step filename year acc p =
     (case acc of (results, st) \<Rightarrow>
      case p of (page_num, page_text) \<Rightarrow>
        (case extract_station_data_structured page_text (page_num + 1) filename year st of
           (None, st') \<Rightarrow> (results, st')
         | (Some station_data, st') \<Rightarrow> (results @ [station_data], st')))"

definition process_pdf_structured :: "pystr \<Rightarrow> error + pystr list \<Rightarrow> ext_state \<Rightarrow>
    dict list \<times> ext_state" where
  "process_pdf_structured filename opened st =
     (case first_year filename of
        None \<Rightarrow> ([], log_msg (LogWarnNoYear filename) st)
      | Some year \<Rightarrow>
          (case opened of
             Inl e \<Rightarrow> ([], log_msg (LogErrorPdf filename) st)
           | Inr doc \<Rightarrow>
               let st1 = log_msg (LogProcessingFile filename (length doc)) st;
                   (results, st2) =
                      foldl (page_step filename year) ([], st1) (zip [0 ..< length doc] doc)
               in (results,
                   log_msg (LogFileDone filename (length results) (length doc - length results))
                     st2)))"

text \<open>
  \<open>_append_to_csv(data)\<close>: one row is added to the output file. \<open>lookup\<close> is \<open>data[key]\<close>
  for the metadata (every record has these keys) and \<open>data.get(key)\<close> for the monthly
  columns.
\<close>

definition lookup :: "dict \<Rightarrow> pystr \<Rightarrow> pyobj" where
  "lookup d k = (case map_of d k of None \<Rightarrow> PyNone | Some v \<Rightarrow> v)"

definition csv_row :: "extractor \<Rightarrow> dict \<Rightarrow> pyobj list" where
  "csv_row slf data = map (lookup data) (metadata_keys @ monthly_keys slf)"

definition file_rows :: "world \<Rightarrow> pystr \<Rightarrow> pyobj list list" where
  \<comment> \<open>the rows of a file, none for a file that does not exist\<close>
  "file_rows w path = (case csv_files w path of None \<Rightarrow> [] | Some rows \<Rightarrow> rows)"

definition append_to_csv :: "dict \<Rightarrow> ext_state \<Rightarrow> ext_state" where
  "append_to_csv data st =
     st\<lparr>world := (world st)\<lparr>csv_files :=
          (csv_files (world st))(output_file (self st) \<mapsto>
             file_rows (world st) (output_file (self st)) @ [csv_row (self st) data])\<rparr>\<rparr>"

text \<open>
  \<open>process_all_pdfs_structured()\<close>. The state of its loops is the extractor with its
  world, the set of the pairs of station code and year that have been written, and the
  count of written records.
\<close>

record loop_state =
  ext :: ext_state
  processed_stations :: "(pyobj \<times> nat) set"
  total_extracted :: nat

definition result_step :: "nat \<Rightarrow> loop_state \<Rightarrow> dict \<Rightarrow> loop_state" where
  "result_step year ls result =
     (let station_year_key = (lookup result (ustr ''station_code''), year) in
      if station_year_key \<in> processed_stations ls
      then ls\<lparr>ext := log_msg (LogWarnDuplicate (lookup result (ustr ''station_code''))) (ext ls)\<rparr>
      else ls\<lparr>ext := append_to_csv result (ext ls),
              processed_stations := insert station_year_key (processed_stations ls),
              total_extracted := total_extracted ls + 1\<rparr>)"

definition open_entry :: "(pystr \<times> (error + pystr list)) list \<Rightarrow> pystr \<Rightarrow> error + pystr list" where
  \<comment> \<open>\<open>fitz.open\<close> of an entry of the directory\<close>
  "open_entry entries name = (case map_of entries name of None \<Rightarrow> Inl OSError | Some d \<Rightarrow> d)"

definition file_step :: "(pystr \<times> (error + pystr list)) list \<Rightarrow> loop_state \<Rightarrow> pystr \<Rightarrow> loop_state" where
  "file_step entries ls pdf_file =
     (case first_year pdf_file of
        None \<Rightarrow> ls
      | Some year \<Rightarrow>
          (case process_pdf_structured pdf_file (open_entry entries pdf_file) (ext ls) of
             (results, st') \<Rightarrow> foldl (result_step year) (ls\<lparr>ext := st'\<rparr>) results))"

definition endswith :: "pystr \<Rightarrow> pystr \<Rightarrow> bool" where
  "endswith s p = (length p \<le> length s \<and> drop (length s - length p) s = p)"

definition process_all_pdfs_structured :: "ext_state \<Rightarrow> ext_state" where
  "process_all_pdfs_structured st =
     (case directories (world st) (pdf_directory (self st)) of
        None \<Rightarrow> log_msg (LogErrorDirectory (pdf_directory (self st))) st
      | Some entries \<Rightarrow>
          let pdf_names = sort (filter (\<lambda>f. endswith f (ustr ''.pdf'')) (map fst entries));
              st1 = log_msg (LogFoundFiles (length pdf_names)) st;
              ls = foldl (file_step entries)
                     \<lparr>ext = st1, processed_stations = {}, total_extracted = 0\<rparr> pdf_names
          in log_msg (LogTotal (total_extracted ls))
               (log_msg (LogCsvUpdated (output_file (self (ext ls)))) (ext ls)))"

definition structured_main :: "pystr \<Rightarrow> pystr \<Rightarrow> world \<Rightarrow> ext_state" where
  \<comment> \<open>\<open>main()\<close>, for the two paths it names\<close>
  "structured_main pdf_dir out w = process_all_pdfs_structured (new_extractor pdf_dir out w)"

section \<open>catchment\_data\_km2.py: the script\<close>

text \<open>
  \<open>DataFrame(results).to_csv(path, index=False)\<close>: the header row with the keys in the
  order of their first appearance, and one row for each record, with \<open>None\<close> where a
  record has no value for a key. \<open>csv_field\<close> is the text of a cell for a given way
  \<open>fmt\<close> of writing numbers: \<open>None\<close> is written as the empty field, by \<open>to_csv\<close> and by
  \<open>csv.writer\<close> alike.
\<close>

definition columns :: "dict list \<Rightarrow> pystr list" where
  "columns ds = rev (remdups (rev (concat (map (map fst) ds))))"

definition to_csv :: "dict list \<Rightarrow> pyobj list list" where
  "to_csv ds = map PyStr (columns ds) # map (\<lambda>d. map (lookup d) (columns ds)) ds"


definition PDF_NAME :: "pystr \<Rightarrow> pystr" where
  "PDF_NAME YEAR = ustr ''debi_raporlari/akim_g'' @ [246] @ ustr ''zlem_yilligi/dsi_'' @ YEAR @
     ustr ''.pdf''"

definition OUTPUT_NAME :: "pystr \<Rightarrow> pystr" where
  "OUTPUT_NAME YEAR = ustr ''dsi_'' @ YEAR @ ustr ''_catchment_areas.csv''"

definition found_message :: "dict \<Rightarrow> message" where
  "found_message r = Found (lookup r (ustr ''station_code'')) (lookup r (ustr ''catchment_area_km2''))
     (lookup r (ustr ''page''))"

definition say :: "message list \<Rightarrow> world \<Rightarrow> world" where
  "say ms w = w\<lparr>printed := printed w @ ms\<rparr>"

text \<open>
  The script, for the year given on the command line: the exception that ends it, if
  any, and the world it leaves. An exception of \<open>extract_catchments\<close> is not caught.
\<close>

definition catchment_main :: "pystr \<Rightarrow> world \<Rightarrow> error option \<times> world" where
  "catchment_main YEAR w =
     (case pdf_files w (PDF_NAME YEAR) of
        None \<Rightarrow> (None, say [ErrorNotFound (PDF_NAME YEAR)] w)
      | Some doc \<Rightarrow>
          (case extract_catchments TARGET_STATIONS doc of
             (results, Some e) \<Rightarrow> (Some e, say (map found_message results) w)
           | (results, None) \<Rightarrow>
               let w1 = say (map found_message results) w in
               if results = [] then (None, say [WarnNoArea] w1)
               else (None,
                     say [Done (length results) (OUTPUT_NAME YEAR)]
                       (w1\<lparr>csv_files := (csv_files w1)(OUTPUT_NAME YEAR \<mapsto> to_csv results)\<rparr>))))"

section \<open>new\_pdf\_reader\_2020.py: pages and the script\<close>

definition ALLOWED_STATIONS :: "pystr list" where
  "ALLOWED_STATIONS = map ustr
     [''E22A065'', ''E22A066'', ''D22A093'', ''E22A071'', ''D14A185'', ''E22A054'',
      ''E22A063'', ''E14A018'', ''D14A162'', ''D14A186'', ''D22A105'', ''E22A053'',
      ''D14A172'', ''D14A117'', ''E14A027'', ''D22A106'', ''D14A200'', ''E14A002'',
      ''D14A179'', ''D22A098'', ''D22A159'', ''D14A064'', ''E14A038'', ''D14A201'',
      ''D14A184'', ''D14A211'', ''D14A208'', ''D14A214'', ''D14A207'', ''D14A141'',
      ''E22A062'', ''E14A040'', ''D14A215'', ''D14A176'', ''D14A011'', ''D14A188'', ''D14A081'']"

text \<open>
  \<open>normalize_text\<close> replaces the Turkish letters by their ASCII look-alikes, and
  \<open>is_valid_region\<close> searches the normalized line for the three region patterns under
  \<open>re.IGNORECASE\<close>.
\<close>

definition normalize_chr :: "nat \<Rightarrow> nat" where
  "normalize_chr c =
     (if c = 305 then 105 else if c = 304 then 73
      else if c = 287 then 103 else if c = 286 then 71
      else if c = 252 then 117 else if c = 220 then 85
      else if c = 351 then 115 else if c = 350 then 83
      else if c = 246 then 111 else if c = 214 then 79
      else if c = 231 then 99 else if c = 199 then 67
      else c)"

definition normalize_text :: "pystr \<Rightarrow> pystr" where
  "normalize_text text = map normalize_chr text"

definition either :: "nat \<Rightarrow> nat \<Rightarrow> atom" where
  \<comment> \<open>a class of two letters under \<open>re.IGNORECASE\<close>\<close>
  "either a b = One (\<lambda>c. ci a c \<or> ci b c)"

definition REGION_PATTERNS :: "atom list list" where
  "REGION_PATTERNS =
     [lit (ustr ''14.'') @ [Spaces] @ lit_ci (ustr ''Ye'') @ [either 351 115] @
        lit_ci (ustr ''ilirmak'') @ [Spaces] @ lit_ci (ustr ''Havzas'') @ [either 305 105],
      lit (ustr ''14'') @ [Spaces, One (\<lambda>c. c = 45), Spaces] @ lit_ci (ustr ''YE'') @
        [either 350 83, either 304 73] @ lit_ci (ustr ''LIRMAK'') @ [Spaces] @
        lit_ci (ustr ''HAVZASI''),
      lit (ustr ''22.'') @ [Spaces] @ lit_ci (ustr ''Do'') @ [either 287 103] @ lit_ci (ustr ''u'') @
        [Spaces] @ lit_ci (ustr ''Karadeniz'') @ [Spaces] @ lit_ci (ustr ''Havzas'') @
        [either 305 105]]"

definition is_valid_region :: "pystr \<Rightarrow> bool" where
  "is_valid_region line =
     list_ex (\<lambda>pattern. search (match_atoms pattern) (normalize_text line) \<noteq> None) REGION_PATTERNS"

definition region_name_of :: "pystr \<Rightarrow> pystr" where
  \<comment> \<open>the group of \<open>re.match(r"\d+\.\s*(.+)", line)\<close>, stripped, or the line itself\<close>
  "region_name_of line =
     (case digits_then 46 line of
        None \<Rightarrow> line
      | Some r \<Rightarrow> (case spaces_then_rest 0 r of None \<Rightarrow> line | Some g \<Rightarrow> strip g))"

text \<open>
  \<open>parse_station_page(page_text, page_num, filename, year)\<close>: the record of the page or
  \<open>None\<close>, with the line it prints when the station is not allowed. The argument
  \<open>field_calls\<close> stands for lines 278 to 291 of the function, the calls of the extractors
  for the catchment area and elevation, the observation period, the average annual
  flow, the monthly data and the annual totals: they see the list \<open>lines\<close> only and give
  the entries of the record after the station name, or the exception of a \<open>float\<close>.
\<close>

definition parse_station_page :: "(pystr list \<Rightarrow> error + dict) \<Rightarrow> pystr \<Rightarrow> nat \<Rightarrow> pystr \<Rightarrow> pystr \<Rightarrow>
    error + dict option \<times> message list" where
  "parse_station_page field_calls page_text page_num filename year =
     (let lines = stripped_lines is_newline page_text in
      case lines of
        [] \<Rightarrow> Inr (None, [])
      | l0 # _ \<Rightarrow>
          if \<not> is_valid_region l0 then Inr (None, [])
          else
            (case extract_station_info (take 4 (drop 1 lines)) of
               None \<Rightarrow> Inr (None, [])
             | Some info \<Rightarrow>
                 if station_code info \<notin> set ALLOWED_STATIONS
                 then Inr (None, [StationNotAllowed page_num (station_code info)])
                 else
                   (case field_calls lines of
                      Inl e \<Rightarrow> Inl e
                    | Inr fs \<Rightarrow>
                        Inr (Some ([(ustr ''file'', PyStr filename),
                                    (ustr ''page'', PyInt (int page_num)),
                                    (ustr ''region_name'', PyStr (region_name_of l0)),
                                    (ustr ''year'', PyStr year),
                                    (ustr ''station_code'', PyStr (station_code info)),
                                    (ustr ''station_name'', PyStr (station_name info))] @ fs),
                             []))))"

text \<open>
  \<open>process_pdf(pdf_path, output_csv)\<close>. The state of its loop is the list of results and
  the world; an exception leaves the loop and the function. The year is taken from the
  end of the path, \<open>2020\<close> when there is none.
\<close>

fun fold_err :: "('s \<Rightarrow> 'a \<Rightarrow> 's \<times> error option) \<Rightarrow> 's \<Rightarrow> 'a list \<Rightarrow> 's \<times> error option" where
  "fold_err f s [] = (s, None)"
| "fold_err f s (x # xs) =
     (case f s x of
        (s', Some e) \<Rightarrow> (s', Some e)
      | (s', None) \<Rightarrow> fold_err f s' xs)"

definition year_at_end :: "pystr \<Rightarrow> pystr option" where
  \<comment> \<open>a match of \<open>(\d{4})\.pdf$\<close> at the head of a string\<close>
  "year_at_end s =
     (if list_all py_isdecimal (take 4 s) \<and>
         (drop 4 s = ustr ''.pdf'' \<or> drop 4 s = ustr ''.pdf'' @ [10])
      then Some (take 4 s) else None)"

definition year_of_path :: "pystr \<Rightarrow> pystr" where
  "year_of_path pdf_path = (case search year_at_end pdf_path of None \<Rightarrow> ustr ''2020'' | Some y \<Rightarrow> y)"

definition reader_page :: "(pystr list \<Rightarrow> error + dict) \<Rightarrow> pystr \<Rightarrow> pystr \<Rightarrow> dict list \<times> world \<Rightarrow>
    nat \<times> pystr \<Rightarrow> (dict list \<times> world) \<times> error option" where
  "reader_page field_calls pdf_path year rw p =
     (case rw of (all_results, w) \<Rightarrow>
      case p of (page_num, text) \<Rightarrow>
        (case stripped_lines is_newline text of
           [] \<Rightarrow> ((all_results, say [PageEmpty (page_num + 1)] w), None)
         | l0 # _ \<Rightarrow>
             if \<not> is_valid_region l0
             then ((all_results, say [RegionInvalid (page_num + 1)] w), None)
             else
               (case parse_station_page field_calls text (page_num + 1) pdf_path year of
                  Inl e \<Rightarrow> ((all_results, w), Some e)
                | Inr (None, ms) \<Rightarrow>
                    ((all_results, say (ms @ [PageNoStation (page_num + 1)]) w), None)
                | Inr (Some result, ms) \<Rightarrow>
                    ((all_results @ [result],
                      say (ms @ [StationExtracted (page_num + 1)
                                   (lookup result (ustr ''station_code''))]) w), None))))"

definition process_pdf :: "(pystr list \<Rightarrow> error + dict) \<Rightarrow> pystr \<Rightarrow> pystr \<Rightarrow> world \<Rightarrow>
    (dict list \<times> world) \<times> error option" where
  "process_pdf field_calls pdf_path output_csv w =
     (let w0 = say [Opening pdf_path] w in
      case pdf_files w pdf_path of
        None \<Rightarrow> (([], w0), Some OSError)
      | Some doc \<Rightarrow>
          (case fold_err (reader_page field_calls pdf_path (year_of_path pdf_path))
                  ([], say [Processing (length doc)] w0) (zip [0 ..< length doc] doc) of
             (rw, Some e) \<Rightarrow> (rw, Some e)
           | ((all_results, w1), None) \<Rightarrow>
               if all_results \<noteq> []
               then ((all_results,
                      say [Saved (length all_results) output_csv]
                        (w1\<lparr>csv_files := (csv_files w1)(output_csv \<mapsto> to_csv all_results)\<rparr>)),
                     None)
               else ((all_results, say [NoDataExtracted] w1), None)))"

definition reader_main :: "(pystr list \<Rightarrow> error + dict) \<Rightarrow> pystr \<Rightarrow> pystr \<Rightarrow> world \<Rightarrow> nat \<times> world" where
  \<comment> \<open>\<open>main()\<close>: the exit status and the world; every exception is caught and reported\<close>
  "reader_main field_calls pdf_path output w =
     (case process_pdf field_calls pdf_path output w of
        ((rs, w'), None) \<Rightarrow> (0, w')
      | ((rs, w'), Some e) \<Rightarrow> (1, say [ErrorExit e] w'))"

section \<open>Notions used in the properties\<close>

definition only_logs :: "ext_state \<Rightarrow> ext_state \<Rightarrow> bool" where
  \<comment> \<open>from the first state to the second, the extractor object and the files are unchanged\<close>
  "only_logs st st' = (self st' = self st \<and> csv_files (world st') = csv_files (world st) \<and>
     directories (world st') = directories (world st))"

definition row_key :: "pyobj list \<Rightarrow> pyobj \<times> pyobj" where
  \<comment> \<open>the cells \<open>station_code\<close> and \<open>year\<close> of a row of the structured output\<close>
  "row_key row = (row ! 3, row ! 2)"

definition written_key :: "pyobj \<times> nat \<Rightarrow> pyobj \<times> pyobj" where
  \<comment> \<open>the cells that a pair of station code and year is written as\<close>
  "written_key k = (fst k, PyInt (int (snd k)))"

definition rows_ok :: "extractor \<Rightarrow> pyobj list list \<Rightarrow> loop_state \<Rightarrow> bool" where
  \<comment> \<open>the loop invariant of \<open>process_all_pdfs_structured\<close>: the output file is the rows
     \<open>base\<close> it had before the loop and then one row for every processed pair\<close>
  "rows_ok slf base ls =
     (self (ext ls) = slf \<and>
      (\<exists>app. file_rows (world (ext ls)) (output_file slf) = base @ app \<and>
         distinct (map row_key app) \<and>
         row_key ` set app = written_key ` processed_stations ls \<and>
         (\<forall>row\<in>set app. \<exists>code\<in>set (target_stations slf). row ! 3 = PyStr code) \<and>
         length app = total_extracted ls))"

text \<open>
  One call of a field extractor of the structured extractor, as a method that takes the
  state and returns it with the value, and a sequence of such calls on one text, which
  collects the values by field.
\<close>

datatype field = Coordinates | CatchmentArea | AnnualAvgFlow | MonthlyData

datatype field_value = TextValue "pystr option" | NumberValue "rat option" | MonthlyValue monthly

definition call_extractor :: "field \<Rightarrow> pystr \<Rightarrow> nat \<Rightarrow> ext_state \<Rightarrow> field_value \<times> ext_state" where
  "call_extractor fld ptext year st =
     (case fld of
        Coordinates \<Rightarrow> (TextValue (extract_coordinates ptext), st)
      | CatchmentArea \<Rightarrow> (NumberValue (extract_catchment_area ptext), st)
      | AnnualAvgFlow \<Rightarrow> (NumberValue (extract_annual_avg_flow ptext year), st)
      | MonthlyData \<Rightarrow>
          (case extract_monthly_data_structured ptext st of (d, st') \<Rightarrow> (MonthlyValue d, st')))"

fun call_all :: "field list \<Rightarrow> pystr \<Rightarrow> nat \<Rightarrow> ext_state \<Rightarrow> (field \<rightharpoonup> field_value) \<times> ext_state" where
  "call_all [] ptext year st = (Map.empty, st)"
| "call_all (fld # flds) ptext year st =
     (case call_extractor fld ptext year st of
        (v, st1) \<Rightarrow> (case call_all flds ptext year st1 of (m, st2) \<Rightarrow> (m(fld \<mapsto> v), st2)))"

text \<open>
  The scan of the lines for one header field alone: the extractor is applied to a line
  as long as the value so far is \<open>None\<close>, empty or zero.
\<close>

definition scan_str :: "(pystr \<Rightarrow> pystr option) \<Rightarrow> pystr option \<Rightarrow> pystr list \<Rightarrow> pystr option" where
  "scan_str g x lines = foldl (\<lambda>x line. if falsy_str x then g line else x) x lines"

definition scan_num :: "(pystr \<Rightarrow> rat option) \<Rightarrow> rat option \<Rightarrow> pystr list \<Rightarrow> rat option" where
  "scan_num g x lines = foldl (\<lambda>x line. if falsy_num x then g line else x) x lines"

definition is_warning :: "message \<Rightarrow> bool" where
  "is_warning m =
     (case m of
        WarnNoArea \<Rightarrow> True
      | NoDataExtracted \<Rightarrow> True
      | LogWarnFewValues n k \<Rightarrow> True
      | LogWarnMissing c y n \<Rightarrow> True
      | LogWarnNoYear f \<Rightarrow> True
      | LogWarnDuplicate c \<Rightarrow> True
      | _ \<Rightarrow> False)"

section \<open>Example inputs\<close>

definition turnasuyu_name :: pystr where
  "turnasuyu_name = ustr ''TURNASUYU CUMHUR'' @ [304] @ ustr ''YET K'' @ [214] @ ustr ''Y'' @ [220]"

definition turnasuyu_line :: pystr where
  "turnasuyu_line = ustr ''D22A093 '' @ turnasuyu_name"

definition maks_row :: pystr where
  \<comment> \<open>the row as the specification quotes it\<close>
  "maks_row = ustr ''Maks. 0,54 1,32 0,62 KURU 2,10 ...''"

definition maks_row_full :: pystr where
  \<comment> \<open>a row with all twelve months\<close>
  "maks_row_full =
     ustr ''Maks. 0,54 1,32 0,62 KURU 2,10 3,40 5,12 4,88 2,75 1,90 0,81 0,47''"

definition area_line :: pystr where
  "area_line = ustr ''YAGIS ALANI : 210,00 km2''"

definition page_two_codes :: pystr where
  \<comment> \<open>a page whose first station line is not a target station and whose second one is\<close>
  "page_two_codes = ustr ''D99A999 BASKA'' @ [10] @ ustr ''D22A093 TURNASUYU'' @ [10] @ area_line"

definition page_bare_code :: pystr where
  \<comment> \<open>a page whose station line is the code alone\<close>
  "page_bare_code = ustr ''D22A093'' @ [10] @ area_line"

definition turnasuyu_record :: dict where
  "turnasuyu_record = [(ustr ''station_code'', PyStr (ustr ''D22A093'')),
     (ustr ''catchment_area_km2'', PyFloat 210), (ustr ''page'', PyInt 1)]"

definition empty_world :: world where
  "empty_world = \<lparr>directories = Map.empty, pdf_files = Map.empty, csv_files = Map.empty,
     printed = []\<rparr>"

definition station_page :: pystr where
  "station_page = ustr ''D22A093 TURNASUYU''"

definition yearbooks :: pystr where
  "yearbooks = ustr ''yearbooks''"

definition out_csv :: pystr where
  "out_csv = ustr ''out.csv''"

definition one_world :: world where
  \<comment> \<open>a directory with one yearbook of one page\<close>
  "one_world = empty_world\<lparr>directories := [yearbooks \<mapsto> [(ustr ''dsi_2020.pdf'', Inr [station_page])]]\<rparr>"

definition dup_record :: dict where
  "dup_record = [(ustr ''station_code'', PyStr (ustr ''D22A093''))]"

definition dup_state :: loop_state where
  \<comment> \<open>a state of the loop in which the station has been written for 2020\<close>
  "dup_state = \<lparr>ext = new_extractor yearbooks out_csv empty_world,
     processed_stations = {(PyStr (ustr ''D22A093''), 2020)}, total_extracted = 1\<rparr>"

definition region_line :: pystr where
  "region_line = ustr ''22. Dogu Karadeniz Havzasi''"

definition region_page_allowed :: pystr where
  \<comment> \<open>a page of a valid region with a station of the allow-list\<close>
  "region_page_allowed = region_line @ [10] @ ustr ''D22A093 TURNASUYU''"

definition region_page_other :: pystr where
  \<comment> \<open>a page of a valid region with a station outside the allow-list\<close>
  "region_page_other = region_line @ [10] @ ustr ''D99A999 BASKA''"

definition no_fields :: "pystr list \<Rightarrow> error + dict" where
  \<comment> \<open>field extractors that find nothing\<close>
  "no_fields lines = Inr []"

definition dsi_2020 :: pystr where
  "dsi_2020 = ustr ''dsi_2020.pdf''"

definition reader_world :: world where
  "reader_world = empty_world\<lparr>pdf_files := [dsi_2020 \<mapsto> [region_page_allowed, region_page_other]]\<rparr>"

definition allowed_record :: dict where
  "allowed_record = [(ustr ''file'', PyStr dsi_2020), (ustr ''page'', PyInt 1),
     (ustr ''region_name'', PyStr (ustr ''Dogu Karadeniz Havzasi'')), (ustr ''year'', PyStr (ustr ''2020'')),
     (ustr ''station_code'', PyStr (ustr ''D22A093'')), (ustr ''station_name'', PyStr (ustr ''TURNASUYU''))]"

definition thousands_page :: pystr where
  \<comment> \<open>a catchment area written with a point for the thousands\<close>
  "thousands_page = ustr ''D22A093 TURNASUYU'' @ [10] @ ustr ''YAGIS ALANI : 1.234,50 km2''"

definition y2020 :: pystr where
  "y2020 = ustr ''2020''"

definition thousands_world :: world where
  "thousands_world = empty_world\<lparr>pdf_files := [PDF_NAME y2020 \<mapsto> [thousands_page]]\<rparr>"





definition flow_line :: pystr where
  "flow_line = ustr ''2020 Su y'' @ [305] @ ustr ''l'' @ [305] @ ustr ''nda 4,711 m3/sn''"


section \<open>Evaluation rules\<close>

lemma py_isdecimal_small: "c < 1632 \<Longrightarrow> py_isdecimal c = (48 \<le> c \<and> c < 58)"
  by (auto simp: py_isdecimal_def decimal_starts_def in_run_def)

lemma digit_val_small: "c < 1632 \<Longrightarrow> py_isdecimal c \<Longrightarrow> digit_val c = c - 48"
  by (auto simp: digit_val_def py_isdecimal_def decimal_starts_def in_run_def)

lemma py_isspace_small: "c < 133 \<Longrightarrow> py_isspace c = (9 \<le> c \<and> c \<le> 13 \<or> 28 \<le> c \<and> c \<le> 32)"
  by (auto simp: py_isspace_def)

lemmas py_eval = ustr_def strip_def replace_chr_def remove_chr_def startswith_def
  py_isdecimal_small digit_val_small py_isspace_small ascii_digit_def ascii_upper_def
  number_at_def py_float_def unsigned_float_def digits_val_def KURU_def DASHES_def
  digit_or_dot_def upper_is_def upper_eq_def

section \<open>Properties\<close>

lemma unsigned_float_error: "unsigned_float u = Inl e \<Longrightarrow> e = ValueError"
  by (auto simp: unsigned_float_def Let_def split: list.splits if_splits)

lemma py_float_error: "py_float s = Inl e \<Longrightarrow> e = ValueError"
  by (auto simp: py_float_def map_sum_def split: list.splits if_splits sum.splits
      dest: unsigned_float_error)

lemma extract_number_cases:
  "extract_number text False = Inr (Some 0) \<or>
   (\<exists>n v. first_number (replace_chr 44 46 text) = Some n \<and> py_float n = Inr v \<and> \<not> v < 0 \<and>
      extract_number text False = Inr (Some v))"
  by (auto simp: extract_number_def Let_def split: option.splits sum.splits
      dest: py_float_error)

text \<open>
  C10. \<open>extract_number\<close> with \<open>allow_negative\<close> left at \<open>False\<close> returns on every
  input string: it never raises and never returns \<open>None\<close>, and the float it returns is
  at least \<open>0.0\<close>. The result is \<open>0.0\<close> for \<open>KURU\<close>, for \<open>-----\<close> and for the empty
  string (also when surrounded by whitespace), for a text in which no number is found,
  for a number that \<open>float\<close> rejects, and for a number that parses to a negative value.
\<close>

theorem extract_number_total_nonneg:
  "\<exists>v. extract_number text False = Inr (Some v) \<and> 0 \<le> v \<and>
     (strip text \<in> {KURU, DASHES, []} \<longrightarrow> v = 0) \<and>
     (first_number (replace_chr 44 46 text) = None \<longrightarrow> v = 0) \<and>
     (\<forall>n. first_number (replace_chr 44 46 text) = Some n \<and> py_float n = Inl ValueError
        \<longrightarrow> v = 0) \<and>
     (\<forall>n x. first_number (replace_chr 44 46 text) = Some n \<and> py_float n = Inr x \<and> x < 0
        \<longrightarrow> v = 0)"
proof -
  consider (zero) "extract_number text False = Inr (Some 0)"
    | (num) n v where "first_number (replace_chr 44 46 text) = Some n" "py_float n = Inr v"
        "\<not> v < 0" "extract_number text False = Inr (Some v)"
    using extract_number_cases by blast
  then show ?thesis
  proof cases
    case zero
    then show ?thesis by simp
  next
    case num
    have "strip text \<in> {KURU, DASHES, []} \<longrightarrow> v = 0"
      using num(4) by (auto simp: extract_number_def)
    with num show ?thesis by simp
  qed
qed

theorem extract_number_total_nonneg_witness:
  "strip (ustr '' KURU '') \<in> {KURU, DASHES, []} \<and>
   extract_number (ustr '' KURU '') False = Inr (Some 0) \<and>
   first_number (replace_chr 44 46 (ustr ''yok'')) = None \<and>
   extract_number (ustr ''yok'') False = Inr (Some 0) \<and>
   first_number (replace_chr 44 46 (ustr ''-3,5'')) = Some (ustr ''-3.5'') \<and>
   py_float (ustr ''-3.5'') = Inr (- 7 / 2) \<and> (- 7 / 2 :: rat) < 0 \<and>
   extract_number (ustr ''-3,5'') False = Inr (Some 0)"
proof -
  have k: "strip (ustr '' KURU '') \<in> {KURU, DASHES, []}"
    by (simp add: py_eval)
  have y: "first_number (replace_chr 44 46 (ustr ''yok'')) = None"
    by (simp add: py_eval)
  have n: "first_number (replace_chr 44 46 (ustr ''-3,5'')) = Some (ustr ''-3.5'')"
    by (simp add: py_eval)
  have f: "py_float (ustr ''-3.5'') = Inr (- 7 / 2)"
    by (simp add: py_eval)
  have l: "(- 7 / 2 :: rat) < 0"
    by simp
  from extract_number_total_nonneg [of "ustr '' KURU ''"] k
  have 1: "extract_number (ustr '' KURU '') False = Inr (Some 0)" by blast
  from extract_number_total_nonneg [of "ustr ''yok''"] y
  have 2: "extract_number (ustr ''yok'') False = Inr (Some 0)" by blast
  from extract_number_total_nonneg [of "ustr ''-3,5''"] n f l
  have 3: "extract_number (ustr ''-3,5'') False = Inr (Some 0)" by blast
  show ?thesis by (intro conjI k y n f l 1 2 3)
qed

lemma space_not_decimal: "py_isspace c \<Longrightarrow> \<not> py_isdecimal c"
  apply (simp only: py_isspace_def list.set insert_iff empty_iff)
  apply (elim disjE)
  apply (simp_all add: py_isdecimal_def decimal_starts_def in_run_def)
  done

lemma decimal_not_space: "py_isdecimal c \<Longrightarrow> \<not> py_isspace c"
  using space_not_decimal by blast

lemma not_decimal_chars [simp]:
  "\<not> py_isdecimal 44" "\<not> py_isdecimal 46" "\<not> py_isdecimal 45" "\<not> py_isdecimal 43" "\<not> py_isdecimal 32"
  by (simp_all add: py_isdecimal_small)

lemma comma_decimalD:
  assumes "comma_decimal s"
  obtains a b where "s = a @ 44 # b" "a \<noteq> []" "b \<noteq> []" "list_all py_isdecimal a"
    "list_all py_isdecimal b"
proof -
  from assms obtain c b where d: "dropWhile py_isdecimal s = c # b"
    and a: "takeWhile py_isdecimal s \<noteq> []" and c: "c = 44" and b: "b \<noteq> []" "list_all py_isdecimal b"
    by (auto simp: comma_decimal_def split: list.splits)
  have "s = takeWhile py_isdecimal s @ 44 # b"
    using takeWhile_dropWhile_id [of py_isdecimal s] d c by simp
  moreover have "list_all py_isdecimal (takeWhile py_isdecimal s)"
    by (simp add: list_all_iff) (meson set_takeWhileD)
  ultimately show ?thesis using that a b by blast
qed

lemma strip_id: "s \<noteq> [] \<Longrightarrow> \<not> py_isspace (hd s) \<Longrightarrow> \<not> py_isspace (last s) \<Longrightarrow> strip s = s"
proof -
  assume s: "s \<noteq> []" and h: "\<not> py_isspace (hd s)" and l: "\<not> py_isspace (last s)"
  from s h have 1: "dropWhile py_isspace s = s"
    by (cases s) simp_all
  from s l have "\<not> py_isspace (hd (rev s))"
    by (simp add: hd_rev)
  with s have 2: "dropWhile py_isspace (rev s) = rev s"
    by (cases "rev s") simp_all
  show ?thesis unfolding strip_def 1 2 by simp
qed

lemma findall_class_all: "s \<noteq> [] \<Longrightarrow> list_all p s \<Longrightarrow> findall_class p s = [s]"
proof (cases s)
  case Nil
  assume "s \<noteq> []"
  with Nil show ?thesis by simp
next
  case (Cons c cs)
  assume "list_all p s"
  with Cons have c: "p c" and cs: "\<forall>x\<in>set cs. p x"
    by (simp_all add: list_all_iff)
  from cs have t: "takeWhile p cs = cs" and d: "dropWhile p cs = []"
    by simp_all
  show ?thesis unfolding Cons findall_class.simps t d using c by simp
qed


lemma digits_dot_digits:
  assumes "list_all py_isdecimal a" "list_all py_isdecimal b" "a \<noteq> []" "b \<noteq> []"
  shows "strip (a @ 46 # b) = a @ 46 # b"
    and "unsigned_float (a @ 46 # b) =
       Inr (of_nat (digits_val a) + of_nat (digits_val b) / 10 ^ length b)"
    and "py_float (a @ 46 # b) =
       Inr (of_nat (digits_val a) + of_nat (digits_val b) / 10 ^ length b)"
proof -
  from assms have ha: "py_isdecimal (hd a)" and lb: "py_isdecimal (last b)"
    by (simp_all add: list_all_iff)
  from assms(3) have hd: "hd (a @ 46 # b) = hd a" by simp
  from assms(4) have la: "last (a @ 46 # b) = last b" by simp
  show s: "strip (a @ 46 # b) = a @ 46 # b"
    by (rule strip_id) (simp_all add: hd la ha lb decimal_not_space)
  from assms(1) have t: "takeWhile py_isdecimal (a @ 46 # b) = a"
    and d: "dropWhile py_isdecimal (a @ 46 # b) = 46 # b"
    by (simp_all add: list_all_iff takeWhile_append2 dropWhile_append2)
  show u: "unsigned_float (a @ 46 # b) =
       Inr (of_nat (digits_val a) + of_nat (digits_val b) / 10 ^ length b)"
    unfolding unsigned_float_def t d using assms by (simp add: Let_def)
  from assms(3) obtain c r where a: "a = c # r" by (cases a) auto
  with ha have "py_isdecimal c" by simp
  then have "c \<noteq> 45" "c \<noteq> 43" by auto
  then show "py_float (a @ 46 # b) =
       Inr (of_nat (digits_val a) + of_nat (digits_val b) / 10 ^ length b)"
    unfolding py_float_def s using u by (simp add: a)
qed


lemma replace_comma_digits: "list_all py_isdecimal a \<Longrightarrow> replace_chr 44 46 a = a"
  by (induction a) (auto simp: replace_chr_def)

lemma remove_space_digits: "list_all py_isdecimal a \<Longrightarrow> remove_chr 32 a = a"
  by (induction a) (auto simp: remove_chr_def)

lemma not_decimal_letters: "\<not> py_isdecimal 75" "\<not> py_isdecimal 107" "\<not> py_isdecimal 110"
  by (simp_all add: py_isdecimal_small)

text \<open>
  C3. For every string of the form \<open>\d+,\d+\<close>, each of the three numeric normalizers
  (\<open>clean_num\<close> of \<open>catchment_data_km2.py\<close>, \<open>_normalize_number\<close> of the structured
  extractor, \<open>clean_num\<close> of \<open>table_arranger.py\<close>) returns a float, and it is the float
  that \<open>float\<close> reads from the same string with its comma replaced by a point.
\<close>

theorem normalizers_comma_decimal:
  assumes "comma_decimal s"
  shows "\<exists>v. py_float (replace_chr 44 46 s) = Inr v \<and> clean_num s = Inr v \<and>
    normalize_number s = Some v \<and> clean_num_arranger (PyStr s) = Some v"
proof -
  from assms obtain a b where s: "s = a @ 44 # b" and ne: "a \<noteq> []" "b \<noteq> []"
    and da: "list_all py_isdecimal a" and db: "list_all py_isdecimal b"
    by (rule comma_decimalD)
  define x where "x = a @ 46 # b"
  define v :: rat where "v = of_nat (digits_val a) + of_nat (digits_val b) / 10 ^ length b"
  from ne da db have hs: "\<not> py_isspace (hd s)" and ls: "\<not> py_isspace (last s)"
    by (simp_all add: s list_all_iff decimal_not_space)
  then have st: "strip s = s"
    by (intro strip_id) (simp_all add: s)
  have r: "replace_chr 44 46 s = x"
    using replace_comma_digits [OF da] replace_comma_digits [OF db]
    by (simp add: s x_def replace_chr_def)
  have f: "py_float x = Inr v"
    unfolding x_def v_def using da db ne by (rule digits_dot_digits(3))
  have c: "clean_num s = Inr v"
    by (simp add: clean_num_def st r f)
  have m: "remove_chr 32 x = x"
    using remove_space_digits [OF da] remove_space_digits [OF db]
    by (simp add: x_def remove_chr_def)
  have "list_all digit_or_dot x"
    using da db by (auto simp: x_def digit_or_dot_def list_all_iff)
  then have fa: "findall_class digit_or_dot x = [x]"
    by (intro findall_class_all) (simp_all add: x_def)
  have sne: "s \<noteq> []"
    by (simp add: s)
  have n: "normalize_number s = Some v"
    by (simp add: normalize_number_def st r m fa f sne)
  from ne da obtain d r' where x: "x = d # r'" and d: "py_isdecimal d"
    by (cases a) (auto simp: x_def)
  have k: "\<not> upper_eq x KURU"
    using d not_decimal_letters by (auto simp: x upper_eq_def KURU_def ustr_def upper_is_def)
  have nan: "x \<noteq> ustr ''nan''"
    using d not_decimal_letters by (auto simp: x ustr_def)
  have t: "clean_num_arranger (PyStr s) = Some v"
    using k nan by (simp add: clean_num_arranger_def st r f) (simp add: x)
  from r f c n t show ?thesis by simp
qed

theorem normalizers_comma_decimal_witness:
  "comma_decimal (ustr ''210,00'') \<and> py_float (ustr ''210.00'') = Inr 210 \<and>
   clean_num (ustr ''210,00'') = Inr 210 \<and> normalize_number (ustr ''210,00'') = Some 210 \<and>
   clean_num_arranger (PyStr (ustr ''210,00'')) = Some 210"
proof -
  have c: "comma_decimal (ustr ''210,00'')"
    by (simp add: comma_decimal_def py_eval)
  have r: "replace_chr 44 46 (ustr ''210,00'') = ustr ''210.00''"
    by (simp add: py_eval)
  have f: "py_float (ustr ''210.00'') = Inr 210"
    by (simp add: py_eval)
  from normalizers_comma_decimal [OF c] r f show ?thesis
    using c by simp
qed

lemma py_isspace_mid: "160 < c \<Longrightarrow> c < 5760 \<Longrightarrow> \<not> py_isspace c"
  by (auto simp: py_isspace_def)

lemmas station_eval = py_eval py_isspace_mid code_at_def match_code_name_def
  spaces_then_rest_def remove_sub_def Let_def
  turnasuyu_line_def turnasuyu_name_def parse_station_info_def

text \<open>
  C6. For the line \<open>D22A093 TURNASUYU CUMHURIYET KOYU\<close> (in its Turkish spelling),
  \<open>extract_station_info\<close> and \<open>parse_station_info\<close> both return the station code
  \<open>D22A093\<close> and the station name \<open>TURNASUYU CUMHURIYET KOYU\<close>.
\<close>

theorem station_info_turnasuyu:
  "extract_station_info [turnasuyu_line] =
     Some \<lparr>station_code = ustr ''D22A093'', station_name = turnasuyu_name\<rparr> \<and>
   parse_station_info turnasuyu_line = (Some (ustr ''D22A093''), Some turnasuyu_name)"
  by (simp add: station_eval)

lemmas monthly_eval = py_eval Let_def monthly_step_def labels_def label_starts_def
  digit_comma_dot_def extract_number_def save_label_def extract_monthly_data_def
  store_month_def suffixes_def month_short_def index_of_def field_name_def MIL_M3_def

lemmas block_eval = py_eval Let_def parse_block_monthly_def patterns_def store_row_def
  block_row_def label_row_at_def label_atoms_def row_class_def ci_def ci_lower_def
  py_split_def clean_num_arranger_def MONTHS_def field_name_def MIL_M3_def

text \<open>
  C2. What the two monthly-table extractors do with the row
  \<open>Maks. 0,54 1,32 0,62 KURU 2,10 ...\<close>. \<open>extract_monthly_data\<close> assigns \<open>0.54\<close> to
  the first month, but its pattern \<open>[\d,\.]+\<close> never yields the token \<open>KURU\<close>: the
  fourth month (January) gets \<open>2.10\<close>, the number of the fifth month, and every later
  value moves one month forward; with all twelve months in the row, September is
  filled with \<open>0.0\<close>. \<open>parse_block\<close> of \<open>table_arranger.py\<close> keeps the token: there
  January is \<open>None\<close> and February is \<open>2.10\<close>.
\<close>

theorem extract_monthly_data_shifts_after_KURU:
  "(\<exists>d. extract_monthly_data [maks_row] = Inr d \<and>
      d (ustr ''oct_max_flow_m3s'') = Some (Some (27 / 50)) \<and>
      d (ustr ''dec_max_flow_m3s'') = Some (Some (31 / 50)) \<and>
      d (ustr ''jan_max_flow_m3s'') = Some (Some (21 / 10))) \<and>
   (\<exists>d. extract_monthly_data [maks_row_full] = Inr d \<and>
      d (ustr ''oct_max_flow_m3s'') = Some (Some (27 / 50)) \<and>
      d (ustr ''jan_max_flow_m3s'') = Some (Some (21 / 10)) \<and>
      d (ustr ''feb_max_flow_m3s'') = Some (Some (17 / 5)) \<and>
      d (ustr ''aug_max_flow_m3s'') = Some (Some (47 / 100)) \<and>
      d (ustr ''sep_max_flow_m3s'') = Some (Some 0)) \<and>
   parse_block_monthly maks_row (ustr ''oct_max'') = Some (Some (27 / 50)) \<and>
   parse_block_monthly maks_row (ustr ''jan_max'') = Some None \<and>
   parse_block_monthly maks_row (ustr ''feb_max'') = Some (Some (21 / 10))"
proof -
  have q: "\<exists>d. extract_monthly_data [maks_row] = Inr d \<and>
      d (ustr ''oct_max_flow_m3s'') = Some (Some (27 / 50)) \<and>
      d (ustr ''dec_max_flow_m3s'') = Some (Some (31 / 50)) \<and>
      d (ustr ''jan_max_flow_m3s'') = Some (Some (21 / 10))"
    by (simp add: maks_row_def monthly_eval upt_rec)
  have t: "\<exists>d. extract_monthly_data [maks_row_full] = Inr d \<and>
      d (ustr ''oct_max_flow_m3s'') = Some (Some (27 / 50)) \<and>
      d (ustr ''jan_max_flow_m3s'') = Some (Some (21 / 10)) \<and>
      d (ustr ''feb_max_flow_m3s'') = Some (Some (17 / 5)) \<and>
      d (ustr ''aug_max_flow_m3s'') = Some (Some (47 / 100)) \<and>
      d (ustr ''sep_max_flow_m3s'') = Some (Some 0)"
    by (simp add: maks_row_full_def monthly_eval upt_rec)
  have b1: "parse_block_monthly maks_row (ustr ''oct_max'') = Some (Some (27 / 50))"
    by (simp add: maks_row_def block_eval upt_rec)
  have b2: "parse_block_monthly maks_row (ustr ''jan_max'') = Some None"
    by (simp add: maks_row_def block_eval upt_rec)
  have b3: "parse_block_monthly maks_row (ustr ''feb_max'') = Some (Some (21 / 10))"
    by (simp add: maks_row_def block_eval upt_rec)
  show ?thesis by (intro conjI q t b1 b2 b3)
qed

lemma map_filter_Nil_iff: "List.map_filter f xs = [] \<longleftrightarrow> (\<forall>x\<in>set xs. f x = None)"
  by (induction xs) (auto simp: List.map_filter_simps split: option.splits)

lemma set_map_filter: "set (List.map_filter f xs) = {y. \<exists>x\<in>set xs. f x = Some y}"
  by (induction xs) (auto simp: List.map_filter_simps split: option.splits)

lemma collect_Nil: "\<forall>x\<in>set xs. f x = ([], None) \<Longrightarrow> collect f xs = ([], None)"
  by (induction xs) auto

lemma collect_set: "r \<in> set (fst (collect f xs)) \<Longrightarrow> \<exists>x\<in>set xs. r \<in> set (fst (f x))"
proof (induction xs)
  case Nil
  then show ?case by simp
next
  case (Cons x xs)
  then show ?case
    by (cases "f x"; cases "snd (f x)"; cases "collect f xs") (auto split: prod.splits)
qed


lemma located_code_Some: "located_code targets l = Some code \<Longrightarrow> code \<in> set targets"
  by (auto simp: located_code_def split: option.splits if_splits)

lemma line_catchment_record:
  assumes "r \<in> set (fst (line_catchment targets pno lines i))"
  shows "\<exists>code. located_code targets (lines ! i) = Some code \<and>
    map_of r (ustr ''station_code'') = Some (PyStr code)"
  using assms
  by (auto simp: line_catchment_def split: option.splits sum.splits)

lemma page_catchments_record:
  assumes "r \<in> set (fst (page_catchments targets (pno, text)))"
  shows "\<exists>code\<in>set (located_codes targets text).
    map_of r (ustr ''station_code'') = Some (PyStr code)"
proof -
  define lines where "lines = stripped_lines is_linebreak text"
  from assms have "r \<in> set (fst (collect (line_catchment targets pno lines) [0 ..< length lines]))"
    by (auto simp: page_catchments_def lines_def Let_def split: if_splits)
  then obtain i where i: "i < length lines" and r: "r \<in> set (fst (line_catchment targets pno lines i))"
    using collect_set by fastforce
  from line_catchment_record [OF r] obtain code
    where c: "located_code targets (lines ! i) = Some code"
      and m: "map_of r (ustr ''station_code'') = Some (PyStr code)"
    by blast
  from i c have "code \<in> set (located_codes targets text)"
    unfolding located_codes_def lines_def [symmetric] set_map_filter
    using nth_mem by blast
  with m show ?thesis by blast
qed

lemma page_catchments_skipped:
  assumes "located_codes targets text = []"
  shows "page_catchments targets (pno, text) = ([], None)"
proof -
  define lines where "lines = stripped_lines is_linebreak text"
  from assms have n: "\<forall>l\<in>set lines. located_code targets l = None"
    by (simp add: located_codes_def lines_def map_filter_Nil_iff)
  have "collect (line_catchment targets pno lines) [0 ..< length lines] = ([], None)"
    by (rule collect_Nil) (simp add: line_catchment_def n)
  then show ?thesis
    by (simp add: page_catchments_def lines_def Let_def)
qed


lemma first_some_Some: "first_some f xs = Some y \<Longrightarrow> \<exists>x\<in>set xs. f x = Some y"
  by (induction xs) (auto split: option.splits)


lemma station_of_line_Some:
  "station_of_line targets line = Some (code, name) \<Longrightarrow>
     extract_station_code line = Some code \<and> code \<in> set targets"
  by (auto simp: station_of_line_def Let_def split: option.splits if_splits)


lemmas catchment_eval = py_eval Let_def located_codes_def locator_spec_def located_code_def
  station_line_code_def code_at_def D_or_E_def letter_A_def stripped_lines_def is_linebreak_def
  List.map_filter_simps TARGET_STATIONS_def page_two_codes_def page_bare_code_def area_line_def
  page_catchments_def line_catchment_def has_area_label_def upper_startswith_def
  YAGIS_ALANI_def YAGIS_ALANI_TR_def area_match_def area_at_def area_atoms_def number_class_def
  lit_ci_def ci_def ci_lower_def clean_num_def turnasuyu_record_def



lemma two_codes_records:
  "page_catchments TARGET_STATIONS (0, page_two_codes) = ([turnasuyu_record], None)"
  by (simp add: catchment_eval upt_rec)


lemma bare_code_located: "located_codes TARGET_STATIONS page_bare_code = []"
  by (simp add: catchment_eval)




lemma only_logs_refl [simp]: "only_logs st st"
  by (simp add: only_logs_def)

lemma only_logs_trans: "only_logs a b \<Longrightarrow> only_logs b c \<Longrightarrow> only_logs a c"
  by (simp add: only_logs_def)

lemma only_logs_log_msg [simp]: "only_logs st (log_msg m st)"
  by (simp add: only_logs_def log_msg_def)

lemma only_logs_log_msg2: "only_logs a b \<Longrightarrow> only_logs a (log_msg m b)"
  by (simp add: only_logs_def log_msg_def)

lemma monthly_line_only_logs: "only_logs st (snd (monthly_line (d, st) line))"
  by (auto simp: monthly_line_def Let_def only_logs_log_msg2 split: option.splits prod.splits)

lemma monthly_fold_only_logs:
  "only_logs st0 st \<Longrightarrow> only_logs st0 (snd (foldl monthly_line (d, st) ls))"
proof (induction ls arbitrary: d st)
  case Nil
  then show ?case by simp
next
  case (Cons l ls)
  obtain d' st' where s: "monthly_line (d, st) l = (d', st')"
    by (cases "monthly_line (d, st) l")
  with monthly_line_only_logs [of st d l] have "only_logs st st'" by simp
  with Cons.prems have "only_logs st0 st'" by (rule only_logs_trans)
  from Cons.IH [OF this] show ?case by (simp add: s)
qed

lemma extract_monthly_only_logs:
  "only_logs st (snd (extract_monthly_data_structured text st))"
  unfolding extract_monthly_data_structured_def by (rule monthly_fold_only_logs) simp

lemma lookup_metadata:
  "lookup ((ustr ''file'', a) # (ustr ''page'', b) # (ustr ''year'', c) # (ustr ''station_code'', d) # r)
     (ustr ''station_code'') = d"
  "lookup ((ustr ''file'', a) # (ustr ''page'', b) # (ustr ''year'', c) # (ustr ''station_code'', d) # r)
     (ustr ''year'') = c"
  by (simp_all add: lookup_def ustr_def)

lemma extract_station_data_structured_result:
  assumes "extract_station_data_structured page_text page_num filename year st = (res, st')"
  shows "only_logs st st'"
    and "res = Some r \<Longrightarrow> \<exists>code\<in>set (target_stations (self st)).
       lookup r (ustr ''station_code'') = PyStr code \<and> lookup r (ustr ''year'') = PyInt (int year)"
proof -
  show "only_logs st st'"
  proof (cases "locate_station (target_stations (self st)) page_text")
    case None
    with assms show ?thesis by (simp add: extract_station_data_structured_def)
  next
    case (Some cn)
    obtain code name where cn: "cn = (code, name)" by (cases cn)
    obtain m st2 where m: "extract_monthly_data_structured page_text
        (log_msg (LogFoundStation code page_num) st) = (m, st2)"
      by (cases "extract_monthly_data_structured page_text (log_msg (LogFoundStation code page_num) st)")
    from extract_monthly_only_logs [of "log_msg (LogFoundStation code page_num) st" page_text] m
    have "only_logs st st2"
      by (simp add: only_logs_def log_msg_def)
    with assms Some cn m show ?thesis
      by (auto simp: extract_station_data_structured_def Let_def only_logs_log_msg2
          split: prod.splits if_splits)
  qed
next
  assume r: "res = Some r"
  with assms obtain code name where l: "locate_station (target_stations (self st)) page_text = Some (code, name)"
    by (cases "locate_station (target_stations (self st)) page_text")
      (auto simp: extract_station_data_structured_def)
  then have "station_of_line (target_stations (self st))
      \<in> {f. \<exists>x. f x = Some (code, name)}"
    unfolding locate_station_def using first_some_Some by fastforce
  then have c: "code \<in> set (target_stations (self st))"
    using station_of_line_Some by blast
  from assms r l have "lookup r (ustr ''station_code'') = PyStr code \<and>
      lookup r (ustr ''year'') = PyInt (int year)"
    by (auto simp: extract_station_data_structured_def Let_def lookup_metadata
        split: prod.splits if_splits)
  with c show "\<exists>code\<in>set (target_stations (self st)).
       lookup r (ustr ''station_code'') = PyStr code \<and> lookup r (ustr ''year'') = PyInt (int year)"
    by blast
qed

lemma page_step_result:
  assumes "page_step filename year (results, st) p = (results', st')"
  shows "only_logs st st'"
    and "\<exists>new. results' = results @ new \<and> (\<forall>r\<in>set new. \<exists>code\<in>set (target_stations (self st)).
       lookup r (ustr ''station_code'') = PyStr code \<and> lookup r (ustr ''year'') = PyInt (int year))"
proof -
  obtain page_num page_text where p: "p = (page_num, page_text)" by (cases p)
  obtain res st1 where e: "extract_station_data_structured page_text (page_num + 1) filename year st
      = (res, st1)"
    by (cases "extract_station_data_structured page_text (page_num + 1) filename year st")
  from assms p e have st': "st' = st1"
    by (auto simp: page_step_def split: option.splits)
  with extract_station_data_structured_result(1) [OF e] show "only_logs st st'" by simp
  show "\<exists>new. results' = results @ new \<and> (\<forall>r\<in>set new. \<exists>code\<in>set (target_stations (self st)).
       lookup r (ustr ''station_code'') = PyStr code \<and> lookup r (ustr ''year'') = PyInt (int year))"
  proof (cases res)
    case None
    with assms p e show ?thesis by (auto simp: page_step_def)
  next
    case (Some r)
    with assms p e have "results' = results @ [r]" by (auto simp: page_step_def)
    with extract_station_data_structured_result(2) [OF e Some] show ?thesis by auto
  qed
qed

lemma page_fold_result:
  assumes "foldl (page_step filename year) (results, st) ps = (results', st')"
  shows "only_logs st st' \<and>
     (\<exists>new. results' = results @ new \<and> (\<forall>r\<in>set new. \<exists>code\<in>set (target_stations (self st)).
       lookup r (ustr ''station_code'') = PyStr code \<and> lookup r (ustr ''year'') = PyInt (int year)))"
  using assms
proof (induction ps arbitrary: results st)
  case Nil
  then show ?case by simp
next
  case (Cons p ps)
  obtain r1 st1 where s: "page_step filename year (results, st) p = (r1, st1)"
    by (cases "page_step filename year (results, st) p")
  from page_step_result [OF s] obtain new1 where l1: "only_logs st st1"
    and n1: "r1 = results @ new1" "\<forall>r\<in>set new1. \<exists>code\<in>set (target_stations (self st)).
       lookup r (ustr ''station_code'') = PyStr code \<and> lookup r (ustr ''year'') = PyInt (int year)"
    by blast
  from Cons.prems s have "foldl (page_step filename year) (r1, st1) ps = (results', st')"
    by simp
  from Cons.IH [OF this] obtain new2 where l2: "only_logs st1 st'"
    and n2: "results' = r1 @ new2" "\<forall>r\<in>set new2. \<exists>code\<in>set (target_stations (self st1)).
       lookup r (ustr ''station_code'') = PyStr code \<and> lookup r (ustr ''year'') = PyInt (int year)"
    by blast
  from l1 have "self st1 = self st" by (simp add: only_logs_def)
  with n1 n2 have "results' = results @ (new1 @ new2) \<and>
      (\<forall>r\<in>set (new1 @ new2). \<exists>code\<in>set (target_stations (self st)).
       lookup r (ustr ''station_code'') = PyStr code \<and> lookup r (ustr ''year'') = PyInt (int year))"
    by auto
  with only_logs_trans [OF l1 l2] show ?case by blast
qed

lemma process_pdf_structured_result:
  assumes "process_pdf_structured filename opened st = (results, st')"
  shows "only_logs st st'"
    and "first_year filename = Some year \<Longrightarrow> \<forall>r\<in>set results. \<exists>code\<in>set (target_stations (self st)).
       lookup r (ustr ''station_code'') = PyStr code \<and> lookup r (ustr ''year'') = PyInt (int year)"
proof -
  have "only_logs st st' \<and> (first_year filename = Some year \<longrightarrow>
      (\<forall>r\<in>set results. \<exists>code\<in>set (target_stations (self st)).
       lookup r (ustr ''station_code'') = PyStr code \<and> lookup r (ustr ''year'') = PyInt (int year)))"
  proof (cases "first_year filename")
    case None
    with assms show ?thesis by (auto simp: process_pdf_structured_def)
  next
    case (Some y)
    show ?thesis
    proof (cases opened)
      case (Inl e)
      with assms Some show ?thesis by (auto simp: process_pdf_structured_def)
    next
      case (Inr doc)
      define st1 where "st1 = log_msg (LogProcessingFile filename (length doc)) st"
      obtain rs st2 where f: "foldl (page_step filename y) ([], st1) (zip [0 ..< length doc] doc)
          = (rs, st2)"
        by (cases "foldl (page_step filename y) ([], st1) (zip [0 ..< length doc] doc)")
      from assms Some Inr f have r: "results = rs"
        and s: "st' = log_msg (LogFileDone filename (length rs) (length doc - length rs)) st2"
        by (auto simp: process_pdf_structured_def st1_def Let_def)
      from page_fold_result [OF f] obtain new where l: "only_logs st1 st2" and
        n: "rs = [] @ new" "\<forall>r\<in>set new. \<exists>code\<in>set (target_stations (self st1)).
          lookup r (ustr ''station_code'') = PyStr code \<and> lookup r (ustr ''year'') = PyInt (int y)"
        by blast
      have l1: "only_logs st st1" by (simp add: st1_def)
      then have "self st1 = self st" by (simp add: only_logs_def)
      with n r Some have "first_year filename = Some year \<longrightarrow>
        (\<forall>r\<in>set results. \<exists>code\<in>set (target_stations (self st)).
         lookup r (ustr ''station_code'') = PyStr code \<and> lookup r (ustr ''year'') = PyInt (int year))"
        by auto
      moreover have "only_logs st st'"
        unfolding s using only_logs_trans [OF l1 l] by (rule only_logs_log_msg2)
      ultimately show ?thesis by blast
    qed
  qed
  then show "only_logs st st'"
    and "first_year filename = Some year \<Longrightarrow> \<forall>r\<in>set results. \<exists>code\<in>set (target_stations (self st)).
       lookup r (ustr ''station_code'') = PyStr code \<and> lookup r (ustr ''year'') = PyInt (int year)"
    by blast+
qed

lemma csv_row_key:
  "row_key (csv_row slf r) = (lookup r (ustr ''station_code''), lookup r (ustr ''year''))"
  by (simp add: row_key_def csv_row_def metadata_keys_def nth_append)

lemma csv_row_code: "csv_row slf r ! 3 = lookup r (ustr ''station_code'')"
  by (simp add: csv_row_def metadata_keys_def nth_append)

lemma inj_written_key: "written_key a = written_key b \<Longrightarrow> a = b"
  by (cases a; cases b) (simp add: written_key_def)

lemma file_rows_append:
  "file_rows (world (append_to_csv r st)) (output_file (self st)) =
     file_rows (world st) (output_file (self st)) @ [csv_row (self st) r]"
  by (simp add: append_to_csv_def file_rows_def)

lemma self_append_to_csv [simp]: "self (append_to_csv r st) = self st"
  by (simp add: append_to_csv_def)

lemma file_rows_log_msg [simp]: "file_rows (world (log_msg m st)) p = file_rows (world st) p"
  by (simp add: file_rows_def log_msg_def)

lemma self_log_msg [simp]: "self (log_msg m st) = self st"
  by (simp add: log_msg_def)

lemma only_logs_file_rows: "only_logs st st' \<Longrightarrow> file_rows (world st') p = file_rows (world st) p"
  by (simp add: only_logs_def file_rows_def)

lemma result_step_rows_ok:
  assumes inv: "rows_ok slf base ls"
    and code: "lookup r (ustr ''station_code'') = PyStr code" "code \<in> set (target_stations slf)"
    and year: "lookup r (ustr ''year'') = PyInt (int year)"
  shows "rows_ok slf base (result_step year ls r)"
proof -
  from inv obtain app where s: "self (ext ls) = slf"
    and f: "file_rows (world (ext ls)) (output_file slf) = base @ app"
    and d: "distinct (map row_key app)"
    and k: "row_key ` set app = written_key ` processed_stations ls"
    and c: "\<forall>row\<in>set app. \<exists>code\<in>set (target_stations slf). row ! 3 = PyStr code"
    and n: "length app = total_extracted ls"
    unfolding rows_ok_def by blast
  show ?thesis
  proof (cases "(PyStr code, year) \<in> processed_stations ls")
    case True
    then have "result_step year ls r = ls\<lparr>ext := log_msg (LogWarnDuplicate (PyStr code)) (ext ls)\<rparr>"
      by (simp add: result_step_def code)
    with s f d k c n show ?thesis
      unfolding rows_ok_def by auto
  next
    case False
    define row where "row = csv_row slf r"
    from False have e: "result_step year ls r =
        ls\<lparr>ext := append_to_csv r (ext ls),
           processed_stations := insert (PyStr code, year) (processed_stations ls),
           total_extracted := total_extracted ls + 1\<rparr>"
      by (simp add: result_step_def code)
    have rk: "row_key row = written_key (PyStr code, year)"
      by (simp add: row_def csv_row_key code year written_key_def)
    have "written_key (PyStr code, year) \<notin> written_key ` processed_stations ls"
      using False inj_written_key by blast
    with k rk have new: "row_key row \<notin> row_key ` set app"
      by simp
    have f': "file_rows (world (append_to_csv r (ext ls))) (output_file slf) = base @ (app @ [row])"
      using file_rows_append [of r "ext ls"] s f by (simp add: row_def)
    have d': "distinct (map row_key (app @ [row]))"
      using d new by simp
    have k': "row_key ` set (app @ [row]) =
        written_key ` insert (PyStr code, year) (processed_stations ls)"
      using k rk by auto
    have c': "\<forall>row\<in>set (app @ [row]). \<exists>code\<in>set (target_stations slf). row ! 3 = PyStr code"
      using c code by (auto simp: row_def csv_row_code)
    have n': "length (app @ [row]) = total_extracted ls + 1"
      using n by simp
    show ?thesis
      unfolding rows_ok_def e using s f' d' k' c' n'
      by (intro conjI exI [of _ "app @ [row]"]) simp_all
  qed
qed

lemma result_fold_rows_ok:
  assumes "rows_ok slf base ls"
    and "\<forall>r\<in>set rs. \<exists>code\<in>set (target_stations slf).
       lookup r (ustr ''station_code'') = PyStr code \<and> lookup r (ustr ''year'') = PyInt (int year)"
  shows "rows_ok slf base (foldl (result_step year) ls rs)"
  using assms
proof (induction rs arbitrary: ls)
  case Nil
  then show ?case by simp
next
  case (Cons r rs)
  from Cons.prems(2) obtain code where "code \<in> set (target_stations slf)"
    "lookup r (ustr ''station_code'') = PyStr code" "lookup r (ustr ''year'') = PyInt (int year)"
    by auto
  with Cons.prems(1) have "rows_ok slf base (result_step year ls r)"
    by (intro result_step_rows_ok)
  with Cons show ?case by simp
qed

lemma rows_ok_only_logs:
  assumes "rows_ok slf base ls" "only_logs (ext ls) st'"
  shows "rows_ok slf base (ls\<lparr>ext := st'\<rparr>)"
  using assms unfolding rows_ok_def
  by (simp add: only_logs_file_rows) (simp add: only_logs_def)

lemma file_step_rows_ok:
  assumes "rows_ok slf base ls"
  shows "rows_ok slf base (file_step entries ls pdf_file)"
proof (cases "first_year pdf_file")
  case None
  with assms show ?thesis by (simp add: file_step_def)
next
  case (Some year)
  obtain results st' where p: "process_pdf_structured pdf_file (open_entry entries pdf_file) (ext ls)
      = (results, st')"
    by (cases "process_pdf_structured pdf_file (open_entry entries pdf_file) (ext ls)")
  from assms have s: "self (ext ls) = slf" by (simp add: rows_ok_def)
  from process_pdf_structured_result(1) [OF p] assms
  have 1: "rows_ok slf base (ls\<lparr>ext := st'\<rparr>)" by (intro rows_ok_only_logs)
  from process_pdf_structured_result(2) [OF p Some] s
  have 2: "\<forall>r\<in>set results. \<exists>code\<in>set (target_stations slf).
       lookup r (ustr ''station_code'') = PyStr code \<and> lookup r (ustr ''year'') = PyInt (int year)"
    by simp
  from result_fold_rows_ok [OF 1 2] Some p show ?thesis
    by (simp add: file_step_def)
qed

lemma file_fold_rows_ok:
  "rows_ok slf base ls \<Longrightarrow> rows_ok slf base (foldl (file_step entries) ls names)"
  by (induction names arbitrary: ls) (simp_all add: file_step_rows_ok)

text \<open>The run of \<open>process_all_pdfs_structured\<close> from any state.\<close>

lemma process_all_rows:
  "self (process_all_pdfs_structured st) = self st \<and>
   (\<exists>app. file_rows (world (process_all_pdfs_structured st)) (output_file (self st)) =
        file_rows (world st) (output_file (self st)) @ app \<and>
      distinct (map row_key app) \<and>
      (\<forall>row\<in>set app. \<exists>code\<in>set (target_stations (self st)). row ! 3 = PyStr code))"
proof (cases "directories (world st) (pdf_directory (self st))")
  case None
  then show ?thesis by (simp add: process_all_pdfs_structured_def)
next
  case (Some entries)
  define names where "names = sort (filter (\<lambda>f. endswith f (ustr ''.pdf'')) (map fst entries))"
  define ls0 where "ls0 = \<lparr>ext = log_msg (LogFoundFiles (length names)) st,
      processed_stations = {}, total_extracted = 0\<rparr>"
  define ls where "ls = foldl (file_step entries) ls0 names"
  have "rows_ok (self st) (file_rows (world st) (output_file (self st))) ls0"
    by (simp add: rows_ok_def ls0_def)
  then have "rows_ok (self st) (file_rows (world st) (output_file (self st))) ls"
    unfolding ls_def by (rule file_fold_rows_ok)
  moreover have "process_all_pdfs_structured st =
      log_msg (LogTotal (total_extracted ls))
        (log_msg (LogCsvUpdated (output_file (self (ext ls)))) (ext ls))"
    by (simp add: process_all_pdfs_structured_def Some Let_def names_def ls0_def ls_def)
  ultimately show ?thesis
    unfolding rows_ok_def by auto
qed

lemma extract_station_data_structured_located:
  assumes "locate_station (target_stations (self st)) page_text = Some (code, name)"
  shows "\<exists>r st'. extract_station_data_structured page_text n f y st = (Some r, st') \<and>
    lookup r (ustr ''station_code'') = PyStr code"
  using assms
  by (auto simp: extract_station_data_structured_def Let_def lookup_metadata split: prod.splits)

lemma self_new_extractor [simp]: "self (new_extractor d out w) = make_extractor d out"
  by (simp add: new_extractor_def initialize_csv_def)

lemma new_extractor_world:
  "directories (world (new_extractor d out w)) = directories w"
  "file_rows (world (new_extractor d out w)) out = [headers (make_extractor d out)]"
  by (simp_all add: new_extractor_def initialize_csv_def log_msg_def file_rows_def make_extractor_def)

lemma station_page_located:
  "locate_station (target_stations (make_extractor d out)) station_page =
     Some (ustr ''D22A093'', Some (ustr ''TURNASUYU''))"
  by (simp add: py_eval Let_def locate_station_def station_of_line_def extract_station_code_def
      code_at_def is_newline_def station_page_def make_extractor_def remove_sub_def)

lemma first_year_2020: "first_year (ustr ''dsi_2020.pdf'') = Some 2020"
  by (simp add: py_eval first_year_def four_digits_at_def)

lemma one_world_run:
  "\<exists>row. file_rows (world (structured_main yearbooks out_csv one_world)) out_csv =
     [headers (make_extractor yearbooks out_csv), row] \<and> row ! 3 = PyStr (ustr ''D22A093'')"
proof -
  define slf where "slf = make_extractor yearbooks out_csv"
  define st0 where "st0 = new_extractor yearbooks out_csv one_world"
  define name where "name = ustr ''dsi_2020.pdf''"
  define entries :: "(pystr \<times> (error + pystr list)) list" where "entries = [(name, Inr [station_page])]"
  have s0: "self st0 = slf" by (simp add: st0_def slf_def)
  have o: "output_file slf = out_csv" by (simp add: slf_def make_extractor_def)
  have p: "pdf_directory slf = yearbooks" by (simp add: slf_def make_extractor_def)
  have d: "directories (world st0) yearbooks = Some entries"
    by (simp add: st0_def new_extractor_world one_world_def empty_world_def entries_def name_def)
  have f0: "file_rows (world st0) out_csv = [headers slf]"
    by (simp add: st0_def slf_def new_extractor_world)
  have names: "sort (filter (\<lambda>f. endswith f (ustr ''.pdf'')) (map fst entries)) = [name]"
    by (simp add: entries_def name_def endswith_def ustr_def)
  define st1 where "st1 = log_msg (LogFoundFiles 1) st0"
  define ls0 where "ls0 = \<lparr>ext = st1, processed_stations = {}, total_extracted = 0\<rparr>"
  define st2 where "st2 = log_msg (LogProcessingFile name 1) st1"
  have "locate_station (target_stations (self st2)) station_page =
      Some (ustr ''D22A093'', Some (ustr ''TURNASUYU''))"
    by (simp add: st2_def st1_def s0 slf_def station_page_located)
  from extract_station_data_structured_located [OF this, of 1 name 2020]
  obtain r st3 where e: "extract_station_data_structured station_page 1 name 2020 st2 = (Some r, st3)"
    and c: "lookup r (ustr ''station_code'') = PyStr (ustr ''D22A093'')"
    by blast
  from extract_station_data_structured_result(1) [OF e] have l3: "only_logs st2 st3" .
  have l2: "only_logs st0 st2" by (simp add: st2_def st1_def only_logs_log_msg2)
  from only_logs_trans [OF l2 l3] have l03: "only_logs st0 st3" .
  define st4 where "st4 = log_msg (LogFileDone name 1 0) st3"
  have pp: "process_pdf_structured name (open_entry entries name) st1 = ([r], st4)"
    using e by (simp add: process_pdf_structured_def open_entry_def entries_def
        first_year_2020 [folded name_def] page_step_def st2_def st4_def upt_rec)
  have l04: "only_logs st0 st4" unfolding st4_def using l03 by (rule only_logs_log_msg2)
  then have s4: "self st4 = slf" and f4: "file_rows (world st4) out_csv = [headers slf]"
    using s0 f0 by (simp_all add: only_logs_def file_rows_def)
  have fs: "file_step entries ls0 name =
      \<lparr>ext = append_to_csv r st4, processed_stations = {(PyStr (ustr ''D22A093''), 2020)},
       total_extracted = 1\<rparr>"
    by (simp add: file_step_def first_year_2020 [folded name_def] ls0_def pp result_step_def c)
  have run: "process_all_pdfs_structured st0 =
      log_msg (LogTotal 1) (log_msg (LogCsvUpdated out_csv) (append_to_csv r st4))"
    using fs by (simp add: process_all_pdfs_structured_def s0 p d names Let_def
        st1_def ls0_def s4 o)
  have "file_rows (world (process_all_pdfs_structured st0)) out_csv = [headers slf, csv_row slf r]"
    unfolding run using file_rows_append [of r st4] by (simp add: s4 o f4)
  moreover have "csv_row slf r ! 3 = PyStr (ustr ''D22A093'')"
    by (simp add: csv_row_code c)
  ultimately show ?thesis
    by (simp add: structured_main_def st0_def slf_def)
qed

text \<open>
  C7. The output of the structured extractor has the header row and then at most one row
  for each pair of station code and year; a record whose pair has been processed is not
  appended: the step logs the duplicate warning and leaves the files as they are.
\<close>

theorem structured_output_one_row_per_pair:
  "(\<exists>app. file_rows (world (structured_main dir out w)) out = headers (make_extractor dir out) # app \<and>
      distinct (map row_key app)) \<and>
   ((lookup r (ustr ''station_code''), year) \<in> processed_stations ls \<longrightarrow>
      result_step year ls r =
        ls\<lparr>ext := log_msg (LogWarnDuplicate (lookup r (ustr ''station_code''))) (ext ls)\<rparr> \<and>
      is_warning (LogWarnDuplicate (lookup r (ustr ''station_code''))) \<and>
      csv_files (world (ext (result_step year ls r))) = csv_files (world (ext ls)))"
proof -
  define st0 where "st0 = new_extractor dir out w"
  have o: "output_file (self st0) = out"
    by (simp add: st0_def make_extractor_def)
  from process_all_rows [of st0] obtain app
    where "file_rows (world (process_all_pdfs_structured st0)) out = file_rows (world st0) out @ app"
      and "distinct (map row_key app)"
    unfolding o by blast
  then have 1: "\<exists>app. file_rows (world (structured_main dir out w)) out =
      headers (make_extractor dir out) # app \<and> distinct (map row_key app)"
    by (auto simp: structured_main_def st0_def new_extractor_world)
  have 2: "(lookup r (ustr ''station_code''), year) \<in> processed_stations ls \<longrightarrow>
      result_step year ls r =
        ls\<lparr>ext := log_msg (LogWarnDuplicate (lookup r (ustr ''station_code''))) (ext ls)\<rparr> \<and>
      is_warning (LogWarnDuplicate (lookup r (ustr ''station_code''))) \<and>
      csv_files (world (ext (result_step year ls r))) = csv_files (world (ext ls))"
    by (simp add: result_step_def is_warning_def log_msg_def)
  from 1 2 show ?thesis by blast
qed

theorem structured_output_one_row_per_pair_witness:
  "(lookup dup_record (ustr ''station_code''), 2020) \<in> processed_stations dup_state \<and>
   result_step 2020 dup_state dup_record =
     dup_state\<lparr>ext := log_msg (LogWarnDuplicate (PyStr (ustr ''D22A093''))) (ext dup_state)\<rparr> \<and>
   csv_files (world (ext (result_step 2020 dup_state dup_record))) =
     csv_files (world (ext dup_state))"
proof -
  have l: "lookup dup_record (ustr ''station_code'') = PyStr (ustr ''D22A093'')"
    by (simp add: lookup_def dup_record_def)
  have h: "(lookup dup_record (ustr ''station_code''), 2020) \<in> processed_stations dup_state"
    by (simp add: l dup_state_def)
  from structured_output_one_row_per_pair [of _ _ _ dup_record 2020 dup_state] h
  have a: "result_step 2020 dup_state dup_record =
        dup_state\<lparr>ext := log_msg (LogWarnDuplicate (lookup dup_record (ustr ''station_code'')))
          (ext dup_state)\<rparr>"
    and b: "csv_files (world (ext (result_step 2020 dup_state dup_record))) =
        csv_files (world (ext dup_state))"
    by blast+
  show ?thesis by (intro conjI h a [unfolded l] b)
qed

lemma lookup_map_of: "map_of r k = Some v \<Longrightarrow> lookup r k = v"
  by (simp add: lookup_def)

lemma extract_catchments_record:
  assumes "r \<in> set (fst (extract_catchments targets doc))"
  shows "\<exists>code\<in>set targets. lookup r (ustr ''station_code'') = PyStr code"
proof -
  from assms obtain x where "x \<in> set (zip [0 ..< length doc] doc)"
    and r: "r \<in> set (fst (page_catchments targets x))"
    unfolding extract_catchments_def using collect_set by fastforce
  obtain pno ptext where "x = (pno, ptext)" by (cases x)
  with r page_catchments_record [of r targets pno ptext] obtain code
    where c: "code \<in> set (located_codes targets ptext)"
      and m: "map_of r (ustr ''station_code'') = Some (PyStr code)"
    by blast
  from c have "code \<in> set targets"
    by (auto simp: located_codes_def set_map_filter dest: located_code_Some)
  with m show ?thesis using lookup_map_of by blast
qed

lemma parse_station_page_record:
  assumes "parse_station_page fc page_text n f y = Inr (Some r, ms)"
  shows "\<exists>code\<in>set ALLOWED_STATIONS. lookup r (ustr ''station_code'') = PyStr code"
  using assms
  by (auto simp: parse_station_page_def Let_def lookup_def ustr_def
      split: list.splits if_splits option.splits sum.splits)

lemma parse_station_page_not_allowed:
  assumes "extract_station_info (take 4 (drop 1 (stripped_lines is_newline page_text))) = Some info"
    and "station_code info \<notin> set ALLOWED_STATIONS"
  shows "\<exists>ms. parse_station_page fc page_text n f y = Inr (None, ms)"
  using assms
  by (auto simp: parse_station_page_def Let_def split: list.splits)

lemma fold_err_invariant:
  assumes "\<And>s x. I s \<Longrightarrow> I (fst (f s x))" and "I s"
  shows "I (fst (fold_err f s xs))"
  using assms(2)
proof (induction xs arbitrary: s)
  case Nil
  then show ?case by simp
next
  case (Cons x xs)
  obtain s' e where fx: "f s x = (s', e)" by (cases "f s x")
  with assms(1) [OF Cons.prems, of x] have "I s'" by simp
  with Cons.IH [of s'] fx show ?case by (cases e) simp_all
qed

lemma reader_page_records:
  assumes "\<forall>r\<in>set (fst rw). \<exists>code\<in>set ALLOWED_STATIONS. lookup r (ustr ''station_code'') = PyStr code"
  shows "\<forall>r\<in>set (fst (fst (reader_page fc path year rw p))).
     \<exists>code\<in>set ALLOWED_STATIONS. lookup r (ustr ''station_code'') = PyStr code"
proof -
  obtain rs w where rw: "rw = (rs, w)" by (cases rw)
  obtain page_num ptext where p: "p = (page_num, ptext)" by (cases p)
  show ?thesis
    using assms parse_station_page_record [of fc ptext "page_num + 1" path year]
    by (auto simp: reader_page_def rw p split: list.splits sum.splits option.splits prod.splits)
qed

lemma process_pdf_records:
  "\<forall>r\<in>set (fst (fst (process_pdf fc path outp w))).
     \<exists>code\<in>set ALLOWED_STATIONS. lookup r (ustr ''station_code'') = PyStr code"
proof (cases "pdf_files w path")
  case None
  then show ?thesis by (simp add: process_pdf_def Let_def)
next
  case (Some doc)
  define s0 where "s0 = (([] :: dict list), say [Processing (length doc)] (say [Opening path] w))"
  define res where "res = fold_err (reader_page fc path (year_of_path path)) s0
      (zip [0 ..< length doc] doc)"
  have "\<forall>r\<in>set (fst (fst res)).
     \<exists>code\<in>set ALLOWED_STATIONS. lookup r (ustr ''station_code'') = PyStr code"
    unfolding res_def
    by (rule fold_err_invariant [where I = "\<lambda>rw. \<forall>r\<in>set (fst rw).
        \<exists>code\<in>set ALLOWED_STATIONS. lookup r (ustr ''station_code'') = PyStr code"])
      (simp_all add: reader_page_records s0_def)
  moreover have "fst (fst (process_pdf fc path outp w)) = fst (fst res)"
    by (cases res; cases "fst res"; cases "snd res")
      (auto simp: process_pdf_def Let_def Some res_def [symmetric] s0_def [symmetric]
        split: prod.splits option.splits)
  ultimately show ?thesis by simp
qed

lemma extract_station_data_structured_skipped:
  "locate_station (target_stations (self st)) page = None \<Longrightarrow>
     extract_station_data_structured page n f yr st = (None, st)"
  by (simp add: extract_station_data_structured_def)

lemma structured_main_rows:
  "self (structured_main dir out w) = make_extractor dir out \<and>
   (\<exists>app. file_rows (world (structured_main dir out w)) out = headers (make_extractor dir out) # app \<and>
      (\<forall>row\<in>set app. \<exists>code\<in>set (target_stations (make_extractor dir out)). row ! 3 = PyStr code))"
proof -
  define st0 where "st0 = new_extractor dir out w"
  have s: "self st0 = make_extractor dir out" and o: "output_file (make_extractor dir out) = out"
    by (simp_all add: st0_def make_extractor_def)
  from process_all_rows [of st0] obtain app
    where 1: "self (process_all_pdfs_structured st0) = make_extractor dir out"
      and 2: "file_rows (world (process_all_pdfs_structured st0)) out = file_rows (world st0) out @ app"
      and 3: "\<forall>row\<in>set app. \<exists>code\<in>set (target_stations (make_extractor dir out)). row ! 3 = PyStr code"
    unfolding s o by blast
  have 4: "file_rows (world st0) out = [headers (make_extractor dir out)]"
    by (simp add: st0_def new_extractor_world)
  have 5: "structured_main dir out w = process_all_pdfs_structured st0"
    by (simp add: structured_main_def st0_def)
  from 1 2 3 show ?thesis unfolding 5 4 by auto
qed


lemmas reader_eval = py_eval py_isspace_mid Let_def parse_station_page_def stripped_lines_def
  is_newline_def is_valid_region_def normalize_text_def normalize_chr_def REGION_PATTERNS_def
  either_def lit_def lit_ci_def ci_def ci_lower_def region_name_of_def digits_then_def
  spaces_then_rest_def match_code_name_def code_at_def ALLOWED_STATIONS_def
  region_line_def region_page_allowed_def region_page_other_def no_fields_def dsi_2020_def
  allowed_record_def

lemma allowed_page_parsed:
  "parse_station_page no_fields region_page_allowed 1 dsi_2020 (ustr ''2020'') =
     Inr (Some allowed_record, [])"
  by (simp add: reader_eval)

lemma other_page_info:
  "extract_station_info (take 4 (drop 1 (stripped_lines is_newline region_page_other))) =
     Some \<lparr>station_code = ustr ''D99A999'', station_name = ustr ''BASKA''\<rparr>"
  by (simp add: reader_eval)

lemma other_code_not_allowed: "ustr ''D99A999'' \<notin> set ALLOWED_STATIONS"
  by (simp add: ALLOWED_STATIONS_def ustr_def)

lemma other_page_parsed:
  "parse_station_page no_fields region_page_other 2 dsi_2020 (ustr ''2020'') =
     Inr (None, [StationNotAllowed 2 (ustr ''D99A999'')])"
  by (simp add: reader_eval)


lemma reader_world_run:
  "fst (fst (process_pdf no_fields dsi_2020 out_csv reader_world)) = [allowed_record]"
  by (simp add: reader_eval process_pdf_def reader_page_def reader_world_def empty_world_def
      year_of_path_def year_at_end_def say_def upt_rec lookup_def)


lemma two_codes_extracted:
  "fst (extract_catchments TARGET_STATIONS [page_two_codes]) = [turnasuyu_record]"
  by (simp add: extract_catchments_def two_codes_records)

lemma no_station_located:
  "locate_station (target_stations (make_extractor d out)) area_line = None"
  by (simp add: py_eval Let_def locate_station_def station_of_line_def extract_station_code_def
      code_at_def is_newline_def area_line_def)

text \<open>
  C5. Every record has a station code of the allow-list: the records that
  \<open>extract_catchments\<close> collects, the record that \<open>parse_station_page\<close> returns and the
  results of \<open>process_pdf\<close>, and every row that the structured extractor writes after
  the header. A page whose station is outside the list gives no record: in the catchment
  script when no line is located, in \<open>parse_station_page\<close> when the code of the station
  line is not allowed, in the structured extractor when no station is located. The
  allow-lists of the first two scripts are constants; the extractor object, with its
  \<open>target_stations\<close>, is the same after the run as when it was made.
\<close>

theorem records_only_for_allowed_stations:
  "(\<forall>r\<in>set (fst (extract_catchments targets doc)).
      \<exists>code\<in>set targets. lookup r (ustr ''station_code'') = PyStr code) \<and>
   (located_codes targets ptext = [] \<longrightarrow> page_catchments targets (pno, ptext) = ([], None)) \<and>
   (\<forall>r ms. parse_station_page fc page_text n f y = Inr (Some r, ms) \<longrightarrow>
      (\<exists>code\<in>set ALLOWED_STATIONS. lookup r (ustr ''station_code'') = PyStr code)) \<and>
   (\<forall>info. extract_station_info (take 4 (drop 1 (stripped_lines is_newline page_text))) = Some info \<and>
      station_code info \<notin> set ALLOWED_STATIONS \<longrightarrow>
      (\<exists>ms. parse_station_page fc page_text n f y = Inr (None, ms))) \<and>
   (\<forall>r\<in>set (fst (fst (process_pdf fc path outp w))).
      \<exists>code\<in>set ALLOWED_STATIONS. lookup r (ustr ''station_code'') = PyStr code) \<and>
   (\<exists>app. file_rows (world (structured_main dir out w0)) out = headers (make_extractor dir out) # app \<and>
      (\<forall>row\<in>set app. \<exists>code\<in>set (target_stations (make_extractor dir out)). row ! 3 = PyStr code)) \<and>
   (locate_station (target_stations (self st)) page = None \<longrightarrow>
      extract_station_data_structured page n f yr st = (None, st)) \<and>
   self (structured_main dir out w0) = make_extractor dir out"
proof -
  have 1: "\<forall>r\<in>set (fst (extract_catchments targets doc)).
      \<exists>code\<in>set targets. lookup r (ustr ''station_code'') = PyStr code"
    using extract_catchments_record by blast
  have 2: "located_codes targets ptext = [] \<longrightarrow> page_catchments targets (pno, ptext) = ([], None)"
    using page_catchments_skipped by blast
  have 3: "\<forall>r ms. parse_station_page fc page_text n f y = Inr (Some r, ms) \<longrightarrow>
      (\<exists>code\<in>set ALLOWED_STATIONS. lookup r (ustr ''station_code'') = PyStr code)"
    using parse_station_page_record by blast
  have 4: "\<forall>info. extract_station_info (take 4 (drop 1 (stripped_lines is_newline page_text))) = Some info \<and>
      station_code info \<notin> set ALLOWED_STATIONS \<longrightarrow>
      (\<exists>ms. parse_station_page fc page_text n f y = Inr (None, ms))"
    using parse_station_page_not_allowed by blast
  have 5: "\<forall>r\<in>set (fst (fst (process_pdf fc path outp w))).
      \<exists>code\<in>set ALLOWED_STATIONS. lookup r (ustr ''station_code'') = PyStr code"
    by (rule process_pdf_records)
  have 6: "\<exists>app. file_rows (world (structured_main dir out w0)) out = headers (make_extractor dir out) # app \<and>
      (\<forall>row\<in>set app. \<exists>code\<in>set (target_stations (make_extractor dir out)). row ! 3 = PyStr code)"
    using structured_main_rows [of dir out w0] by blast
  have 7: "locate_station (target_stations (self st)) page = None \<longrightarrow>
      extract_station_data_structured page n f yr st = (None, st)"
    using extract_station_data_structured_skipped by blast
  have 8: "self (structured_main dir out w0) = make_extractor dir out"
    using structured_main_rows [of dir out w0] by blast
  show ?thesis by (intro conjI 1 2 3 4 5 6 7 8)
qed

theorem records_only_for_allowed_stations_witness:
  "fst (extract_catchments TARGET_STATIONS [page_two_codes]) = [turnasuyu_record] \<and>
   (\<exists>code\<in>set TARGET_STATIONS. lookup turnasuyu_record (ustr ''station_code'') = PyStr code) \<and>
   located_codes TARGET_STATIONS page_bare_code = [] \<and>
   page_catchments TARGET_STATIONS (0, page_bare_code) = ([], None) \<and>
   parse_station_page no_fields region_page_allowed 1 dsi_2020 (ustr ''2020'') =
     Inr (Some allowed_record, []) \<and>
   (\<exists>code\<in>set ALLOWED_STATIONS. lookup allowed_record (ustr ''station_code'') = PyStr code) \<and>
   ustr ''D99A999'' \<notin> set ALLOWED_STATIONS \<and>
   (\<exists>ms. parse_station_page no_fields region_page_other 2 dsi_2020 (ustr ''2020'') = Inr (None, ms)) \<and>
   fst (fst (process_pdf no_fields dsi_2020 out_csv reader_world)) = [allowed_record] \<and>
   (\<exists>row. file_rows (world (structured_main yearbooks out_csv one_world)) out_csv =
      [headers (make_extractor yearbooks out_csv), row] \<and>
      (\<exists>code\<in>set (target_stations (make_extractor yearbooks out_csv)). row ! 3 = PyStr code)) \<and>
   locate_station (target_stations (self (new_extractor yearbooks out_csv empty_world))) area_line = None \<and>
   extract_station_data_structured area_line 1 dsi_2020 2020 (new_extractor yearbooks out_csv empty_world) =
     (None, new_extractor yearbooks out_csv empty_world)"
proof -
  note t = records_only_for_allowed_stations [of TARGET_STATIONS "[page_two_codes]" page_bare_code 0
      no_fields region_page_allowed 1 dsi_2020 "ustr ''2020''" dsi_2020 out_csv reader_world
      yearbooks out_csv one_world "new_extractor yearbooks out_csv empty_world" area_line 2020]
  note u = records_only_for_allowed_stations [of TARGET_STATIONS "[page_two_codes]" page_bare_code 0
      no_fields region_page_other 2 dsi_2020 "ustr ''2020''" dsi_2020 out_csv reader_world
      yearbooks out_csv one_world "new_extractor yearbooks out_csv empty_world" area_line 2020]
  have a: "\<exists>code\<in>set TARGET_STATIONS. lookup turnasuyu_record (ustr ''station_code'') = PyStr code"
    using t two_codes_extracted by simp
  have b: "page_catchments TARGET_STATIONS (0, page_bare_code) = ([], None)"
    using t bare_code_located by blast
  have c: "\<exists>code\<in>set ALLOWED_STATIONS. lookup allowed_record (ustr ''station_code'') = PyStr code"
    using t allowed_page_parsed by blast
  have d: "\<exists>ms. parse_station_page no_fields region_page_other 2 dsi_2020 (ustr ''2020'') = Inr (None, ms)"
    using u other_page_info other_code_not_allowed by force
  from one_world_run obtain row
    where r: "file_rows (world (structured_main yearbooks out_csv one_world)) out_csv =
      [headers (make_extractor yearbooks out_csv), row]"
    by blast
  from t obtain app where "file_rows (world (structured_main yearbooks out_csv one_world)) out_csv =
      headers (make_extractor yearbooks out_csv) # app"
    and "\<forall>row\<in>set app. \<exists>code\<in>set (target_stations (make_extractor yearbooks out_csv)). row ! 3 = PyStr code"
    by blast
  with r have "\<exists>code\<in>set (target_stations (make_extractor yearbooks out_csv)). row ! 3 = PyStr code"
    by simp
  with r have e: "\<exists>row. file_rows (world (structured_main yearbooks out_csv one_world)) out_csv =
      [headers (make_extractor yearbooks out_csv), row] \<and>
      (\<exists>code\<in>set (target_stations (make_extractor yearbooks out_csv)). row ! 3 = PyStr code)"
    by blast
  have f: "locate_station (target_stations (self (new_extractor yearbooks out_csv empty_world))) area_line = None"
    by (simp add: no_station_located)
  have g: "extract_station_data_structured area_line 1 dsi_2020 2020 (new_extractor yearbooks out_csv empty_world) =
     (None, new_extractor yearbooks out_csv empty_world)"
    using t f by blast
  show ?thesis
    by (intro conjI two_codes_extracted a bare_code_located b allowed_page_parsed c
        other_code_not_allowed d reader_world_run e f g)
qed

lemma say_Nil [simp]: "say [] w = w"
  by (simp add: say_def)

lemma thousands_clean_num: "clean_num (ustr ''1.234,50'') = Inl ValueError"
  by (simp add: clean_num_def py_eval)

lemma thousands_extracted:
  "extract_catchments TARGET_STATIONS [thousands_page] = ([], Some ValueError)"
  by (simp add: extract_catchments_def catchment_eval thousands_page_def upt_rec)

text \<open>
  C9, the run that breaks it. The yearbook of 2020 exists and has one page, a target
  station whose catchment area is written \<open>1.234,50\<close>. \<open>clean_num\<close> turns it into
  \<open>1.234.50\<close>, \<open>float\<close> raises \<open>ValueError\<close>, and nothing catches it: the script ends
  with the exception, having printed nothing and written no file. The normalizer of the
  structured extractor answers \<open>None\<close> for the same text.
\<close>

theorem catchment_main_value_error:
  "pdf_files thousands_world (PDF_NAME y2020) = Some [thousands_page] \<and>
   clean_num (ustr ''1.234,50'') = Inl ValueError \<and>
   catchment_main y2020 thousands_world = (Some ValueError, thousands_world) \<and>
   normalize_number (ustr ''1.234,50'') = None \<and>
   clean_num_arranger (PyStr (ustr ''1.234,50'')) = None"
proof -
  have 1: "pdf_files thousands_world (PDF_NAME y2020) = Some [thousands_page]"
    by (simp add: thousands_world_def empty_world_def)
  have 3: "catchment_main y2020 thousands_world = (Some ValueError, thousands_world)"
    by (simp add: catchment_main_def 1 thousands_extracted)
  have 4: "normalize_number (ustr ''1.234,50'') = None"
    by (simp add: normalize_number_def py_eval)
  have 5: "clean_num_arranger (PyStr (ustr ''1.234,50'')) = None"
    by (simp add: clean_num_arranger_def py_eval)
  show ?thesis by (intro conjI 1 thousands_clean_num 3 4 5)
qed













lemma make_extractor_paths [simp]:
  "output_file (make_extractor d out) = out" "pdf_directory (make_extractor d out) = d"
  by (simp_all add: make_extractor_def)











lemma monthly_line_value:
  assumes "self st = self st'"
  shows "fst (monthly_line (d, st) line) = fst (monthly_line (d, st') line)"
  using assms by (auto simp: monthly_line_def Let_def split: option.splits prod.splits)

lemma monthly_fold_value:
  assumes "self st = self st'"
  shows "fst (foldl monthly_line (d, st) ls) = fst (foldl monthly_line (d, st') ls)"
  using assms
proof (induction ls arbitrary: d st st')
  case Nil
  then show ?case by simp
next
  case (Cons l ls)
  obtain d1 st1 where 1: "monthly_line (d, st) l = (d1, st1)" by (cases "monthly_line (d, st) l")
  obtain d2 st2 where 2: "monthly_line (d, st') l = (d2, st2)" by (cases "monthly_line (d, st') l")
  from monthly_line_value [OF Cons.prems, of d l] 1 2 have d: "d1 = d2" by simp
  from monthly_line_only_logs [of st d l] 1 have "self st1 = self st" by (simp add: only_logs_def)
  moreover from monthly_line_only_logs [of st' d l] 2 have "self st2 = self st'"
    by (simp add: only_logs_def)
  ultimately have "self st1 = self st2" using Cons.prems by simp
  from Cons.IH [OF this, of d1] show ?case by (simp add: 1 2 d)
qed

lemma call_extractor_value:
  "self st = self st' \<Longrightarrow>
     fst (call_extractor fld ptext year st) = fst (call_extractor fld ptext year st')"
  using monthly_fold_value [of st st' Map.empty "split_on is_newline ptext"]
  by (cases fld) (auto simp: call_extractor_def extract_monthly_data_structured_def split: prod.splits)

lemma call_extractor_only_logs: "only_logs st (snd (call_extractor fld ptext year st))"
  using extract_monthly_only_logs [of st ptext]
  by (cases fld) (auto simp: call_extractor_def split: prod.splits)

lemma call_all_value:
  "fst (call_all flds ptext year st) =
     (\<lambda>fld. if fld \<in> set flds then Some (fst (call_extractor fld ptext year st)) else None) \<and>
   only_logs st (snd (call_all flds ptext year st))"
proof (induction flds arbitrary: st)
  case Nil
  show ?case by auto
next
  case (Cons fld flds)
  obtain v st1 where c: "call_extractor fld ptext year st = (v, st1)"
    by (cases "call_extractor fld ptext year st")
  obtain m st2 where a: "call_all flds ptext year st1 = (m, st2)"
    by (cases "call_all flds ptext year st1")
  from call_extractor_only_logs [of st fld ptext year] c have l1: "only_logs st st1" by simp
  then have s: "self st1 = self st" by (simp add: only_logs_def)
  from Cons.IH [of st1] a
  have m: "m = (\<lambda>g. if g \<in> set flds then Some (fst (call_extractor g ptext year st1)) else None)"
    and l2: "only_logs st1 st2"
    by simp_all
  have "m(fld \<mapsto> v) =
      (\<lambda>g. if g \<in> set (fld # flds) then Some (fst (call_extractor g ptext year st)) else None)"
    using c call_extractor_value [OF s, of _ ptext year] by (auto simp: m fun_eq_iff)
  with only_logs_trans [OF l1 l2] show ?case by (simp add: c a)
qed

lemma header_loop_scans:
  "header_loop year (c, a, f) lines =
     (scan_str extract_coordinates c lines, scan_num extract_catchment_area a lines,
      scan_num (\<lambda>line. extract_annual_avg_flow line year) f lines)"
  by (induction lines arbitrary: c a f) (simp_all add: scan_str_def scan_num_def)

lemma flow_line_2020: "extract_annual_avg_flow flow_line 2020 = Some (4711 / 1000)"
  by (simp add: py_eval py_isspace_mid Let_def flow_line_def extract_annual_avg_flow_def
      annual_flow_at_def findall_def decimal_number_then_def lit_def lit_ci_def ci_def ci_lower_def
      YILINDA_def str_nat.simps normalize_number_def)

lemma flow_line_2019: "extract_annual_avg_flow flow_line 2019 = None"
  by (simp add: py_eval py_isspace_mid Let_def flow_line_def extract_annual_avg_flow_def
      annual_flow_at_def findall_def decimal_number_then_def lit_def lit_ci_def ci_def ci_lower_def
      YILINDA_def str_nat.simps normalize_number_def)

text \<open>
  C8, as the specification states it, fails for the annual average flow of the
  structured extractor: it is not a function of the text alone. The pattern starts with
  the year taken from the file name, so the same line gives \<open>4.711\<close> for 2020 and
  nothing for 2019.
\<close>

theorem annual_flow_depends_on_year_counterexample:
  "extract_annual_avg_flow flow_line 2020 = Some (4711 / 1000) \<and>
   extract_annual_avg_flow flow_line 2019 = None"
  by (intro conjI flow_line_2020 flow_line_2019)

text \<open>
  C8, as the code has it. Each call of a field extractor gives a value that depends on
  the text, on the year (for the annual average flow) and on the extractor object only,
  not on what was logged or written before, and it leaves the extractor object and the
  files as they are. So calls of the extractors in any two orders that name the same
  fields collect the same values. The loop over the lines that fills coordinates,
  catchment area and annual average flow computes each of the three on its own.
\<close>

theorem field_extraction_order_independent:
  "(set flds = set flds' \<longrightarrow>
      fst (call_all flds ptext year st) = fst (call_all flds' ptext year st)) \<and>
   only_logs st (snd (call_all flds ptext year st)) \<and>
   (self st = self st' \<longrightarrow>
      fst (call_extractor fld ptext year st) = fst (call_extractor fld ptext year st')) \<and>
   header_loop year (None, None, None) lines =
     (scan_str extract_coordinates None lines, scan_num extract_catchment_area None lines,
      scan_num (\<lambda>line. extract_annual_avg_flow line year) None lines)"
proof -
  have 1: "set flds = set flds' \<longrightarrow>
      fst (call_all flds ptext year st) = fst (call_all flds' ptext year st)"
    using call_all_value [of flds ptext year st] call_all_value [of flds' ptext year st] by simp
  have 2: "only_logs st (snd (call_all flds ptext year st))"
    using call_all_value by blast
  have 3: "self st = self st' \<longrightarrow>
      fst (call_extractor fld ptext year st) = fst (call_extractor fld ptext year st')"
    using call_extractor_value by blast
  show ?thesis by (intro conjI 1 2 3 header_loop_scans)
qed

theorem field_extraction_order_independent_witness:
  "set [AnnualAvgFlow, MonthlyData, Coordinates] = set [Coordinates, AnnualAvgFlow, MonthlyData] \<and>
   fst (call_all [AnnualAvgFlow, MonthlyData, Coordinates] flow_line 2020
          (new_extractor yearbooks out_csv empty_world)) =
   fst (call_all [Coordinates, AnnualAvgFlow, MonthlyData] flow_line 2020
          (new_extractor yearbooks out_csv empty_world)) \<and>
   self (log_msg (LogFoundFiles 0) (new_extractor yearbooks out_csv empty_world)) =
     self (new_extractor yearbooks out_csv empty_world) \<and>
   fst (call_extractor AnnualAvgFlow flow_line 2020
          (log_msg (LogFoundFiles 0) (new_extractor yearbooks out_csv empty_world))) =
     NumberValue (Some (4711 / 1000))"
proof -
  define st where "st = new_extractor yearbooks out_csv empty_world"
  have s: "set [AnnualAvgFlow, MonthlyData, Coordinates] = set [Coordinates, AnnualAvgFlow, MonthlyData]"
    by auto
  have l: "self (log_msg (LogFoundFiles 0) st) = self st"
    by simp
  note t = field_extraction_order_independent [where st = st and ptext = flow_line and year = 2020]
  from t [where flds = "[AnnualAvgFlow, MonthlyData, Coordinates]"
      and flds' = "[Coordinates, AnnualAvgFlow, MonthlyData]", THEN conjunct1] s
  have a: "fst (call_all [AnnualAvgFlow, MonthlyData, Coordinates] flow_line 2020 st) =
      fst (call_all [Coordinates, AnnualAvgFlow, MonthlyData] flow_line 2020 st)"
    by blast
  have v: "fst (call_extractor AnnualAvgFlow flow_line 2020 st) = NumberValue (Some (4711 / 1000))"
    by (simp add: call_extractor_def flow_line_2020)
  from field_extraction_order_independent [where st = "log_msg (LogFoundFiles 0) st" and st' = st
      and fld = AnnualAvgFlow and ptext = flow_line and year = 2020,
      THEN conjunct2, THEN conjunct2, THEN conjunct1] l v
  have b: "fst (call_extractor AnnualAvgFlow flow_line 2020 (log_msg (LogFoundFiles 0) st)) =
      NumberValue (Some (4711 / 1000))"
    by simp
  show ?thesis
    unfolding st_def [symmetric] by (intro conjI s a l b)
qed

end
